theory Spec2Isabelle
  imports Complex_Main "HOL-Library.Word" "HOL-Library.Sublist" "HOL-Library.Multiset"
    "HOL-Library.Code_Target_Numeral"
begin

section \<open>Python values and string primitives\<close>

text \<open>
  The batch endpoint receives JSON, so every field of a request is a dynamically typed
  value. Python \<open>str\<close> is modelled as \<open>string\<close>: a list of code points below 256
  (Latin-1). A Python float is a binary64 number: a real that the rounding \<open>fl\<close> below
  leaves unchanged.
\<close>

datatype pyval =
    PNone
  | PBool bool
  | PInt int
  | PFloat real
  | PStr string
  | PList "pyval list"
  | PDict "(string \<times> pyval) list"

text \<open>An exception carries its message, \<open>str(e)\<close>.\<close>

datatype exn = AttributeError string | TypeError string | ValueError string

fun str_exn :: "exn \<Rightarrow> string" where
  "str_exn (AttributeError m) = m"
| "str_exn (TypeError m) = m"
| "str_exn (ValueError m) = m"

fun type_name :: "pyval \<Rightarrow> string" where
  "type_name PNone = ''NoneType''"
| "type_name (PBool _) = ''bool''"
| "type_name (PInt _) = ''int''"
| "type_name (PFloat _) = ''float''"
| "type_name (PStr _) = ''str''"
| "type_name (PList _) = ''list''"
| "type_name (PDict _) = ''dict''"

definition no_attribute :: "pyval \<Rightarrow> string \<Rightarrow> exn" where
  "no_attribute v a =
     AttributeError ([CHR 0x27] @ type_name v @ [CHR 0x27] @ '' object has no attribute ''
                     @ [CHR 0x27] @ a @ [CHR 0x27])"

definition not_iterable :: "pyval \<Rightarrow> exn" where
  "not_iterable v = TypeError ([CHR 0x27] @ type_name v @ [CHR 0x27] @ '' object is not iterable'')"

type_synonym dict = "(string \<times> pyval) list"

text \<open>\<open>str.lower()\<close> on code points below 256: A-Z and the Latin-1 capitals move up by 32.\<close>

definition lower_char :: "char \<Rightarrow> char" where
  "lower_char c =
     (let n = (of_char c :: nat)
      in if (65 \<le> n \<and> n \<le> 90) \<or> (192 \<le> n \<and> n \<le> 222 \<and> n \<noteq> 215)
         then char_of (n + 32) else c)"

definition lower :: "string \<Rightarrow> string" where
  "lower s = map lower_char s"

text \<open>The characters that \<open>str.split()\<close> treats as whitespace, below 256.\<close>

definition is_space :: "char \<Rightarrow> bool" where
  "is_space c =
     (let n = (of_char c :: nat)
      in (9 \<le> n \<and> n \<le> 13) \<or> (28 \<le> n \<and> n \<le> 32) \<or> n = 133 \<or> n = 160)"

text \<open>\<open>s.split()\<close>: maximal runs of non-whitespace characters, no empty words.\<close>

fun split_acc :: "string \<Rightarrow> string \<Rightarrow> string list" where
  "split_acc w [] = (if w = [] then [] else [w])"
| "split_acc w (c # cs) =
     (if is_space c then (if w = [] then split_acc [] cs else w # split_acc [] cs)
      else split_acc (w @ [c]) cs)"

definition split :: "string \<Rightarrow> string list" where
  "split s = split_acc [] s"

text \<open>\<open>sub in s\<close> for two strings: \<open>sub\<close> occurs as a contiguous block of \<open>s\<close>.\<close>

fun is_in :: "string \<Rightarrow> string \<Rightarrow> bool" where
  "is_in sub [] = (sub = [])"
| "is_in sub (c # cs) = (prefix sub (c # cs) \<or> is_in sub cs)"

text \<open>\<open>str(n)\<close> for a non-negative integer, as the f-string formats it.\<close>

definition digit_char :: "nat \<Rightarrow> char" where
  "digit_char d = char_of (48 + d)"

fun str_nat :: "nat \<Rightarrow> string" where
  "str_nat n = (if n < 10 then [digit_char n] else str_nat (n div 10) @ [digit_char (n mod 10)])"

section \<open>Binary64 arithmetic\<close>

text \<open>
  Python computes on IEEE 754 binary64 numbers, rounding every result to the nearest
  representable number, a tie going to the even significand. \<open>fl x\<close> is that rounding of
  the real \<open>x\<close>: for \<open>x > 0\<close>, \<open>expo x\<close> is the exponent \<open>e\<close> with \<open>2^e \<le> x < 2^(e+1)\<close>, the spacing of the
  representable numbers around \<open>x\<close> is \<open>2^(max e (-1022) - 52)\<close> (subnormal numbers share the
  spacing \<open>2^(-1074)\<close>), and \<open>x\<close> is rounded to a multiple of that spacing. Overflow to
  infinity (magnitudes of \<open>2^1024\<close> and beyond) is outside the model.
\<close>

fun bitlen :: "nat \<Rightarrow> nat" where
  "bitlen n = (if n = 0 then 0 else Suc (bitlen (n div 2)))"

definition pow2 :: "int \<Rightarrow> real" where
  "pow2 k = (if 0 \<le> k then 2 ^ nat k else 1 / 2 ^ nat (- k))"

definition expo :: "real \<Rightarrow> int" where
  "expo x = (if 1 \<le> x then int (bitlen (nat \<lfloor>x\<rfloor>)) - 1
             else - int (bitlen (nat \<lceil>1 / x\<rceil> - 1)))"

definition half_even :: "real \<Rightarrow> int" where
  "half_even y =
     (let f = \<lfloor>y\<rfloor>; d = y - of_int f
      in if d < 1 / 2 then f else if 1 / 2 < d then f + 1 else if even f then f else f + 1)"

definition flpos :: "real \<Rightarrow> real" where
  "flpos x = (let u = pow2 (max (expo x) (- 1022) - 52) in of_int (half_even (x / u)) * u)"

definition fl :: "real \<Rightarrow> real" where
  "fl x = (if x = 0 then 0 else if 0 < x then flpos x else - flpos (- x))"

declare bitlen.simps [simp del]

text \<open>A Python number is an \<open>int\<close> or a \<open>float\<close>; the operations keep the distinction.\<close>

datatype pynum = PyInt int | PyFloat real

fun val :: "pynum \<Rightarrow> real" where
  "val (PyInt i) = of_int i"
| "val (PyFloat x) = x"

text \<open>\<open>float(a)\<close>, the conversion an \<open>int\<close> undergoes when it meets a \<open>float\<close>.\<close>

fun to_float :: "pynum \<Rightarrow> real" where
  "to_float (PyInt i) = fl (of_int i)"
| "to_float (PyFloat x) = x"

fun py_mul :: "pynum \<Rightarrow> pynum \<Rightarrow> pynum" where
  "py_mul (PyInt a) (PyInt b) = PyInt (a * b)"
| "py_mul a b = PyFloat (fl (to_float a * to_float b))"

fun py_add :: "pynum \<Rightarrow> pynum \<Rightarrow> pynum" where
  "py_add (PyInt a) (PyInt b) = PyInt (a + b)"
| "py_add a b = PyFloat (fl (to_float a + to_float b))"

text \<open>
  \<open>a / b\<close> on two \<open>int\<close>s is the correctly rounded quotient. Every divisor in this program
  is positive (\<open>max(1, _)\<close>, 500 or 100).
\<close>

definition int_truediv :: "int \<Rightarrow> int \<Rightarrow> pynum" where
  "int_truediv a b = PyFloat (fl (of_int a / of_int b))"

text \<open>
  \<open>min(a, b)\<close> and \<open>max(a, b)\<close> answer the first argument unless the second is strictly
  smaller (greater); an \<open>int\<close> and a \<open>float\<close> are compared by value.
\<close>

definition py_min :: "pynum \<Rightarrow> pynum \<Rightarrow> pynum" where
  "py_min a b = (if val b < val a then b else a)"

definition py_max :: "pynum \<Rightarrow> pynum \<Rightarrow> pynum" where
  "py_max a b = (if val a < val b then b else a)"

text \<open>
  \<open>round(x, 2)\<close>: an \<open>int\<close> is answered unchanged; a \<open>float\<close> is rounded to the nearest
  multiple of 0.01 of its exact value, a tie going to the even multiple, and the decimal
  result is read back as the nearest binary64 number.
\<close>

fun py_round2 :: "pynum \<Rightarrow> pynum" where
  "py_round2 (PyInt i) = PyInt i"
| "py_round2 (PyFloat x) = PyFloat (fl (of_int (half_even (x * 100)) / 100))"

section \<open>The digest seed\<close>

text \<open>
  \<open>hashlib.md5\<close> is a library function; its 16-byte digest is a parameter \<open>md5\<close> of the
  model, of type \<open>128 word\<close>. \<open>encode\<close> is UTF-8 on code points below 256.
\<close>

definition encode :: "string \<Rightarrow> 8 word list" where
  "encode s =
     concat (map (\<lambda>c. let n = (of_char c :: nat)
                       in if n < 128 then [of_nat n]
                          else [of_nat (192 + n div 64), of_nat (128 + n mod 64)]) s)"

definition hex_digit :: "nat \<Rightarrow> char" where
  "hex_digit n = (if n < 10 then char_of (48 + n) else char_of (87 + n))"

definition hexdigest :: "128 word \<Rightarrow> string" where
  "hexdigest d = map (\<lambda>i. hex_digit (unat d div 16 ^ (31 - i) mod 16)) [0..<32]"

definition hex_val :: "char \<Rightarrow> nat option" where
  "hex_val c =
     (let n = (of_char c :: nat)
      in if 48 \<le> n \<and> n \<le> 57 then Some (n - 48)
         else if 97 \<le> n \<and> n \<le> 102 then Some (n - 87)
         else if 65 \<le> n \<and> n \<le> 70 then Some (n - 55)
         else None)"

text \<open>
  \<open>int(s, 16)\<close> on the strings \<open>hexdigest\<close> produces, which hold hexadecimal digits
  only; \<open>None\<close> is Python's ValueError (the empty string, or a character that is no digit).
  The signs, prefixes, underscores and blanks that \<open>int\<close> also reads never occur there.
\<close>

fun int16_acc :: "nat \<Rightarrow> string \<Rightarrow> nat option" where
  "int16_acc a [] = Some a"
| "int16_acc a (c # cs) =
     (case hex_val c of None \<Rightarrow> None | Some v \<Rightarrow> int16_acc (16 * a + v) cs)"

definition int16 :: "string \<Rightarrow> nat option" where
  "int16 s = (if s = [] then None else int16_acc 0 s)"

text \<open>A digest function that answers every message with the digest \<open>d\<close>.\<close>

definition const_digest :: "128 word \<Rightarrow> 8 word list \<Rightarrow> 128 word" where
  "const_digest d bs = d"

definition seed_of :: "(8 word list \<Rightarrow> 128 word) \<Rightarrow> string \<Rightarrow> nat option" where
  "seed_of md5 resume_text = int16 (take 8 (hexdigest (md5 (encode resume_text))))"

section \<open>The scoring engine\<close>

record explanation =
  strengths :: "string list"
  gaps :: "string list"
  recommendation :: string

record score =
  overall_score :: pynum
  skills_score :: pynum
  semantic_score :: pynum
  found_skills :: "string list"
  matched_skills :: "string list"
  missing_skills :: "string list"
  explanation :: explanation

text \<open>The weights 0.6 and 0.4 are the binary64 numbers nearest to 6/10 and 4/10.\<close>

definition score_from_components :: "pynum \<Rightarrow> pynum \<Rightarrow> pynum" where
  "score_from_components skills semantic =
     py_add (py_mul skills (PyFloat (fl (6 / 10)))) (py_mul semantic (PyFloat (fl (4 / 10))))"

text \<open>The local variables of \<open>_fallback_score\<close>, in the order the function computes them.\<close>

definition matched_count :: "string \<Rightarrow> string list \<Rightarrow> nat" where
  "matched_count resume_text required_skills =
     length (filter (\<lambda>skill. is_in (lower skill) (lower resume_text)) required_skills)"

definition skills_raw :: "string \<Rightarrow> string list \<Rightarrow> pynum" where
  "skills_raw resume_text required_skills =
     py_min (PyInt 100)
       (py_mul (py_mul (int_truediv (int (matched_count resume_text required_skills))
                                    (int (max 1 (length required_skills))))
                       (PyInt 100))
               (PyFloat (fl (12 / 10))))"

definition words :: "string \<Rightarrow> string set" where
  "words text = set (filter (\<lambda>w. 3 < length w) (split (lower text)))"

definition overlap :: "string \<Rightarrow> string \<Rightarrow> nat" where
  "overlap resume_text job_description = card (words resume_text \<inter> words job_description)"

definition semantic_raw :: "string \<Rightarrow> string \<Rightarrow> pynum" where
  "semantic_raw resume_text job_description =
     py_min (PyInt 100)
       (py_mul (int_truediv (int (overlap resume_text job_description))
                            (int (max 1 (card (words job_description)))))
               (PyInt 100))"

definition length_bonus :: "string \<Rightarrow> pynum" where
  "length_bonus resume_text = py_min (PyInt 20) (int_truediv (int (length resume_text)) 500)"

definition variance :: "nat \<Rightarrow> pynum" where
  "variance seed = int_truediv (int (seed mod 20) - 10) 100"

definition overall_raw :: "nat \<Rightarrow> string \<Rightarrow> string \<Rightarrow> string list \<Rightarrow> pynum" where
  "overall_raw seed resume_text job_description required_skills =
     (let overall = score_from_components (skills_raw resume_text required_skills)
                      (semantic_raw resume_text job_description);
          overall = py_min (PyInt 100) (py_add overall (length_bonus resume_text))
      in py_max (PyInt 0)
           (py_min (PyInt 100) (py_mul overall (py_add (PyInt 1) (variance seed)))))"

definition recommend :: "pynum \<Rightarrow> string" where
  "recommend overall =
     (if 80 \<le> val overall then ''Highly Recommended''
      else if 60 \<le> val overall then ''Recommended''
      else if 40 \<le> val overall then ''Maybe'' else ''Not Recommended'')"

definition build_score :: "nat \<Rightarrow> string \<Rightarrow> string \<Rightarrow> string list \<Rightarrow> score" where
  "build_score seed resume_text job_description required_skills =
     (let resume_lower = lower resume_text;
          overall = overall_raw seed resume_text job_description required_skills
      in \<lparr> overall_score = py_round2 overall,
           skills_score = py_round2 (skills_raw resume_text required_skills),
           semantic_score = py_round2 (semantic_raw resume_text job_description),
           found_skills = filter (\<lambda>s. is_in (lower s) resume_lower) required_skills,
           matched_skills = filter (\<lambda>s. is_in (lower s) resume_lower) required_skills,
           missing_skills = filter (\<lambda>s. \<not> is_in (lower s) resume_lower) required_skills,
           explanation =
             \<lparr> strengths = [''Matched '' @ str_nat (matched_count resume_text required_skills)
                              @ ''/'' @ str_nat (length required_skills) @ '' required skills''],
               gaps = filter (\<lambda>s. \<not> is_in (lower s) resume_lower) required_skills,
               recommendation = recommend overall \<rparr> \<rparr>)"

text \<open>
  Iterating \<open>required_skills\<close>: a list yields its elements, a string its characters, a
  dict its keys; anything else is not iterable.
\<close>

fun py_iter :: "pyval \<Rightarrow> exn + pyval list" where
  "py_iter (PList xs) = Inr xs"
| "py_iter (PStr s) = Inr (map (\<lambda>c. PStr [c]) s)"
| "py_iter (PDict kvs) = Inr (map (\<lambda>kv. PStr (fst kv)) kvs)"
| "py_iter v = Inl (not_iterable v)"

text \<open>Every skill must answer \<open>.lower()\<close>, which among these values only a string does.\<close>

fun as_strs :: "pyval list \<Rightarrow> exn + string list" where
  "as_strs [] = Inr []"
| "as_strs (PStr s # vs) = (case as_strs vs of Inl e \<Rightarrow> Inl e | Inr ss \<Rightarrow> Inr (s # ss))"
| "as_strs (v # vs) = Inl (no_attribute v ''lower'')"

text \<open>
  \<open>_fallback_score\<close> on dynamically typed arguments: \<open>resume_text.encode()\<close> and the
  two \<open>.lower()\<close> calls need strings, the skills must be iterable and hold strings.
\<close>

fun fallback_score ::
  "(8 word list \<Rightarrow> 128 word) \<Rightarrow> pyval \<Rightarrow> pyval \<Rightarrow> pyval \<Rightarrow> exn + score" where
  "fallback_score md5 (PStr resume_text) (PStr job_description) required_skills =
     (case seed_of md5 resume_text of
        None \<Rightarrow> Inl (ValueError (''invalid literal for int() with base 16: '' @ [CHR 0x27]
                                 @ take 8 (hexdigest (md5 (encode resume_text))) @ [CHR 0x27]))
      | Some seed \<Rightarrow>
          (case py_iter required_skills of
             Inl e \<Rightarrow> Inl e
           | Inr vs \<Rightarrow>
               (case as_strs vs of
                  Inl e \<Rightarrow> Inl e
                | Inr skills \<Rightarrow> Inr (build_score seed resume_text job_description skills))))"
| "fallback_score md5 (PStr resume_text) job_description required_skills =
     Inl (no_attribute job_description ''lower'')"
| "fallback_score md5 resume_text job_description required_skills =
     Inl (no_attribute resume_text ''encode'')"

section \<open>The batch pipeline\<close>

text \<open>
  The library functions the pipeline calls: the MD5 digest and \<open>traceback.format_exc\<close>.
\<close>

record lib =
  md5 :: "8 word list \<Rightarrow> 128 word"
  format_exc :: "exn \<Rightarrow> string"

definition dict_get :: "dict \<Rightarrow> string \<Rightarrow> pyval \<Rightarrow> pyval" where
  "dict_get d k dflt = (case map_of d k of None \<Rightarrow> dflt | Some v \<Rightarrow> v)"

definition has_key :: "dict \<Rightarrow> string \<Rightarrow> bool" where
  "has_key d k = (map_of d k \<noteq> None)"

text \<open>\<open>d.update(res)\<close>: every pair of \<open>res\<close> is stored in \<open>d\<close>, replacing a value held under the same key.\<close>

fun store :: "string \<Rightarrow> pyval \<Rightarrow> dict \<Rightarrow> dict" where
  "store k v [] = [(k, v)]"
| "store k v (p # ps) = (if fst p = k then (k, v) # ps else p # store k v ps)"

fun dict_update :: "dict \<Rightarrow> dict \<Rightarrow> dict" where
  "dict_update d [] = d"
| "dict_update d (p # ps) = dict_update (store (fst p) (snd p) d) ps"

fun num_val :: "pynum \<Rightarrow> pyval" where
  "num_val (PyInt i) = PInt i"
| "num_val (PyFloat x) = PFloat x"

definition to_dict :: "score \<Rightarrow> dict" where
  "to_dict s =
     [(''overall_score'', num_val (overall_score s)),
      (''skills_score'', num_val (skills_score s)),
      (''semantic_score'', num_val (semantic_score s)),
      (''found_skills'', PList (map PStr (found_skills s))),
      (''matched_skills'', PList (map PStr (matched_skills s))),
      (''missing_skills'', PList (map PStr (missing_skills s))),
      (''explanation'',
         PDict [(''strengths'', PList (map PStr (strengths (explanation s)))),
                (''gaps'', PList (map PStr (gaps (explanation s)))),
                (''recommendation'', PStr (recommendation (explanation s)))])]"

text \<open>\<open>len(v)\<close>, which the debug line of \<open>_process_single_sync\<close> takes of the resume.\<close>

fun py_len :: "pyval \<Rightarrow> exn + nat" where
  "py_len (PStr s) = Inr (length s)"
| "py_len (PList xs) = Inr (length xs)"
| "py_len (PDict kvs) = Inr (length kvs)"
| "py_len v = Inl (TypeError (''object of type '' @ [CHR 0x27] @ type_name v @ [CHR 0x27]
                              @ '' has no len()''))"

text \<open>The body of the \<open>try\<close>: the debug line, then the scoring.\<close>

definition attempt :: "lib \<Rightarrow> pyval \<Rightarrow> pyval \<Rightarrow> pyval \<Rightarrow> exn + score" where
  "attempt L resume_text job_description required_skills =
     (case py_len resume_text of
        Inl e \<Rightarrow> Inl e
      | Inr n \<Rightarrow> fallback_score (md5 L) resume_text job_description required_skills)"

definition process_single_sync :: "lib \<Rightarrow> pyval \<Rightarrow> pyval \<Rightarrow> pyval \<Rightarrow> dict" where
  "process_single_sync L resume_text job_description required_skills =
     (case attempt L resume_text job_description required_skills of
        Inr result \<Rightarrow> to_dict result
      | Inl e \<Rightarrow>
          [(''error'', PBool True), (''message'', PStr (str_exn e)),
           (''trace'', PStr (format_exc L e))])"

text \<open>The sort key of a record: its \<open>overall_score\<close>, or -1 when it has none.\<close>

definition sort_key_rec :: "dict \<Rightarrow> pyval" where
  "sort_key_rec r = dict_get r ''overall_score'' (PInt (- 1))"

fun num_of :: "pyval \<Rightarrow> real option" where
  "num_of (PFloat x) = Some x"
| "num_of (PInt i) = Some (real_of_int i)"
| "num_of (PBool b) = Some (if b then 1 else 0)"
| "num_of _ = None"

definition key_num :: "dict \<Rightarrow> real" where
  "key_num r = (case num_of (sort_key_rec r) of Some x \<Rightarrow> x | None \<Rightarrow> 0)"

text \<open>
  \<open>sorted(out, key=sort_key, reverse=True)\<close>: a stable sort, largest key first. A batch of
  at most one record is answered as it is, no keys being compared. Otherwise the model
  covers the batches whose keys are all numbers, which Python compares by value; these are
  the batches the endpoint produces. For any other batch the model gives no answer
  (\<open>None\<close>): whether Python orders such a batch or raises depends on the keys and on the
  comparisons the sort happens to make.
\<close>

definition out_sorted :: "dict list \<Rightarrow> dict list option" where
  "out_sorted out =
     (if length out \<le> 1 then Some out
      else if list_all (\<lambda>r. num_of (sort_key_rec r) \<noteq> None) out
           then Some (sort_key (\<lambda>r. - key_num r) out) else None)"

definition run_item :: "lib \<Rightarrow> dict \<Rightarrow> dict" where
  "run_item L it =
     process_single_sync L (dict_get it ''resume_text'' (PStr []))
       (dict_get it ''job_description'' (PStr []))
       (dict_get it ''required_skills'' (PList []))"

text \<open>\<open>asyncio.gather\<close> answers the results in the order of the tasks.\<close>

definition merged :: "lib \<Rightarrow> dict list \<Rightarrow> dict list" where
  "merged L items = map (\<lambda>(src, res). dict_update src res) (zip items (map (run_item L) items))"

definition process_bulk_async :: "lib \<Rightarrow> dict list \<Rightarrow> dict list option" where
  "process_bulk_async L items = out_sorted (merged L items)"

definition make_item :: "dict \<Rightarrow> dict" where
  "make_item r =
     [(''resume_text'', dict_get r ''resume_text'' (PStr [])),
      (''job_description'', dict_get r ''job_description'' (PStr [])),
      (''required_skills'', dict_get r ''required_skills'' (PList [])),
      (''fileName'', dict_get r ''fileName'' (PStr ''Unknown''))]"

text \<open>
  The endpoint builds the four-key items and hands them to \<open>process_bulk_async\<close>; on
  these items the pipeline raises nothing, so the handler of the endpoint is never entered.
\<close>

definition score_candidates_batch :: "lib \<Rightarrow> dict list \<Rightarrow> dict list option" where
  "score_candidates_batch L requests = process_bulk_async L (map make_item requests)"

section \<open>Records of a batch\<close>

text \<open>
  What the \<open>try\<close> of \<open>_process_single_sync\<close> yields for the item built from the request
  \<open>q\<close>, and the record the pipeline makes for that request.
\<close>

definition outcome :: "lib \<Rightarrow> dict \<Rightarrow> exn + score" where
  "outcome L q =
     attempt L (dict_get q ''resume_text'' (PStr [])) (dict_get q ''job_description'' (PStr []))
       (dict_get q ''required_skills'' (PList []))"

definition record_of :: "lib \<Rightarrow> dict \<Rightarrow> dict" where
  "record_of L q = dict_update (make_item q) (run_item L (make_item q))"

definition errored :: "dict \<Rightarrow> bool" where
  "errored r = has_key r ''error''"

definition scored :: "dict \<Rightarrow> bool" where
  "scored r = has_key r ''overall_score''"




text \<open>A traceback formatter that answers every exception with the text \<open>t\<close>.\<close>

definition const_trace :: "string \<Rightarrow> exn \<Rightarrow> string" where
  "const_trace t e = t"

section \<open>Facts about binary64 rounding\<close>

lemma bitlen_upper: "n < 2 ^ bitlen n"
proof (induction n rule: bitlen.induct)
  case (1 n)
  show ?case
  proof (cases "n = 0")
    case True
    then show ?thesis by (simp add: bitlen.simps)
  next
    case False
    with 1 have "n div 2 < 2 ^ bitlen (n div 2)" by simp
    then have "n < 2 * 2 ^ bitlen (n div 2)" by linarith
    with False show ?thesis by (subst bitlen.simps) simp
  qed
qed

lemma bitlen_lower: "0 < n \<Longrightarrow> 2 ^ (bitlen n - 1) \<le> n"
proof (induction n rule: bitlen.induct)
  case (1 n)
  then have n: "n \<noteq> 0" by simp
  show ?case
  proof (cases "n div 2 = 0")
    case True
    then have "bitlen (n div 2) = 0" by (simp add: bitlen.simps)
    with n have "bitlen n = 1" by (subst bitlen.simps) simp
    with 1 show ?thesis by simp
  next
    case False
    with 1 n have ih: "2 ^ (bitlen (n div 2) - 1) \<le> n div 2" by simp
    from False have "bitlen (n div 2) \<noteq> 0" by (subst bitlen.simps) simp
    then obtain b where b: "bitlen (n div 2) = Suc b" by (cases "bitlen (n div 2)") auto
    with n have "bitlen n = Suc (Suc b)" by (subst bitlen.simps) simp
    moreover from ih b have "2 * 2 ^ b \<le> n" by simp
    ultimately show ?thesis by simp
  qed
qed

lemma pow2_powr: "pow2 k = 2 powr (real_of_int k)"
proof (cases "0 \<le> k")
  case True
  then have "real_of_int k = real (nat k)" by simp
  then have "2 powr (real_of_int k) = 2 powr (real (nat k))" by (simp only:)
  also have "\<dots> = 2 ^ nat k" by (rule powr_realpow) simp
  finally show ?thesis using True by (simp only: pow2_def if_True)
next
  case False
  then have "real_of_int k = - real (nat (- k))" by simp
  then have "2 powr (real_of_int k) = 2 powr (- real (nat (- k)))" by (simp only:)
  also have "\<dots> = 1 / 2 powr (real (nat (- k)))" by (rule powr_minus_divide)
  also have "2 powr (real (nat (- k))) = 2 ^ nat (- k)" by (rule powr_realpow) simp
  finally show ?thesis using False by (simp only: pow2_def if_False)
qed

lemma pow2_pos: "0 < pow2 k"
  by (simp add: pow2_powr)

lemma pow2_add: "pow2 (a + b) = pow2 a * pow2 b"
  by (simp add: pow2_powr powr_add)

lemma pow2_mono: "a \<le> b \<Longrightarrow> pow2 a \<le> pow2 b"
  by (simp add: pow2_powr)

lemma pow2_nat: "0 \<le> k \<Longrightarrow> pow2 k = of_int (2 ^ nat k)"
  by (simp add: pow2_def)

lemma expo_bounds:
  assumes "0 < x"
  shows "pow2 (expo x) \<le> x \<and> x < pow2 (expo x + 1)"
proof (cases "1 \<le> x")
  case True
  define n where "n = nat \<lfloor>x\<rfloor>"
  have n1: "0 < n" using True by (simp add: n_def)
  have nx: "real n \<le> x" "x < real n + 1" using True by (simp_all add: n_def)
  have b1: "1 \<le> bitlen n" using n1 by (subst bitlen.simps) simp
  have e: "expo x = int (bitlen n) - 1" using True by (simp add: expo_def n_def)
  have "pow2 (expo x) = 2 ^ (bitlen n - 1)" using b1 by (simp add: e pow2_def nat_diff_distrib)
  moreover have "real (2 ^ (bitlen n - 1)) \<le> real n"
    using bitlen_lower[OF n1] by (simp only: of_nat_le_iff)
  then have "(2::real) ^ (bitlen n - 1) \<le> real n" by simp
  ultimately have l: "pow2 (expo x) \<le> x" using nx by linarith
  have "pow2 (expo x + 1) = 2 ^ bitlen n" by (simp add: e pow2_def)
  moreover have "n + 1 \<le> 2 ^ bitlen n" using bitlen_upper[of n] by simp
  then have "real (n + 1) \<le> real (2 ^ bitlen n)" by (simp only: of_nat_le_iff)
  then have "real n + 1 \<le> 2 ^ bitlen n" by simp
  ultimately have "x < pow2 (expo x + 1)" using nx by linarith
  with l show ?thesis by simp
next
  case False
  define k where "k = nat \<lceil>1 / x\<rceil>"
  define m where "m = k - 1"
  have inv: "1 < 1 / x" using assms False by simp
  then have c2: "2 \<le> \<lceil>1 / x\<rceil>" by linarith
  then have "nat 2 \<le> nat \<lceil>1 / x\<rceil>" by (rule nat_mono)
  then have k2: "2 \<le> k" by (simp add: k_def)
  have m1: "0 < m" using k2 by (simp add: m_def)
  have kr: "real k = of_int \<lceil>1 / x\<rceil>" using c2 by (simp add: k_def)
  have kx: "1 / x \<le> real k" "real k - 1 < 1 / x"
    unfolding kr by linarith+
  have e: "expo x = - int (bitlen m)" using False by (simp add: expo_def k_def m_def)
  have b1: "1 \<le> bitlen m" using m1 by (subst bitlen.simps) simp
  have "k \<le> 2 ^ bitlen m" using bitlen_upper[of m] m1 by (simp add: m_def)
  then have "real k \<le> real (2 ^ bitlen m)" by (simp only: of_nat_le_iff)
  then have "real k \<le> 2 ^ bitlen m" by simp
  with kx have "1 / x \<le> 2 ^ bitlen m" by linarith
  then have "1 \<le> 2 ^ bitlen m * x" using assms by (simp add: field_simps)
  then have "1 / 2 ^ bitlen m \<le> x" by (simp add: field_simps)
  moreover have "pow2 (expo x) = 1 / 2 ^ bitlen m" using b1 by (simp add: e pow2_def)
  ultimately have l: "pow2 (expo x) \<le> x" by simp
  have "real (2 ^ (bitlen m - 1)) \<le> real m"
    using bitlen_lower[OF m1] by (simp only: of_nat_le_iff)
  then have "(2::real) ^ (bitlen m - 1) \<le> real m" by simp
  moreover have "real m = real k - 1" using k2 by (simp add: m_def)
  ultimately have "2 ^ (bitlen m - 1) < 1 / x" using kx by linarith
  then have "x * 2 ^ (bitlen m - 1) < 1" using assms by (simp add: field_simps)
  then have u: "x < 1 / 2 ^ (bitlen m - 1)" by (simp add: field_simps)
  have "pow2 (expo x + 1) = 1 / 2 ^ (bitlen m - 1)"
  proof (cases "bitlen m = 1")
    case True
    then show ?thesis by (simp add: e pow2_def)
  next
    case False
    with b1 have "1 < bitlen m" by simp
    then have "nat (int (bitlen m) - 1) = bitlen m - 1" by simp
    with \<open>1 < bitlen m\<close> show ?thesis by (simp add: e pow2_def)
  qed
  with u l show ?thesis by simp
qed

lemma pow2_diff: "pow2 a / pow2 b = pow2 (a - b)"
proof -
  have "pow2 (a - b) * pow2 b = pow2 a" using pow2_add[of "a - b" b] by simp
  then show ?thesis using pow2_pos[of b] by (simp add: field_simps)
qed

lemma pow2_less_imp: "pow2 a < pow2 b \<Longrightarrow> a < b"
  using pow2_mono[of b a] by (cases "a < b") auto

lemma half_even_lower: "\<lfloor>y\<rfloor> \<le> half_even y"
  by (simp add: half_even_def Let_def)

lemma half_even_upper: "half_even y \<le> \<lceil>y\<rceil>"
proof (cases "y = of_int \<lfloor>y\<rfloor>")
  case True
  then have "y - of_int \<lfloor>y\<rfloor> = 0" by simp
  then have "half_even y = \<lfloor>y\<rfloor>" by (simp add: half_even_def Let_def)
  then show ?thesis by (simp add: floor_le_ceiling)
next
  case False
  then have "\<lceil>y\<rceil> = \<lfloor>y\<rfloor> + 1" by (simp add: ceiling_altdef)
  then show ?thesis by (simp add: half_even_def Let_def)
qed

lemma half_even_of_int: "half_even (of_int n) = n"
  by (simp add: half_even_def Let_def)

lemma half_even_mono:
  assumes "y \<le> z"
  shows "half_even y \<le> half_even z"
proof (cases "\<lfloor>y\<rfloor> = \<lfloor>z\<rfloor>")
  case True
  with assms have "y - of_int \<lfloor>y\<rfloor> \<le> z - of_int \<lfloor>z\<rfloor>" by simp
  with True show ?thesis by (auto simp: half_even_def Let_def)
next
  case False
  with assms have lt: "\<lfloor>y\<rfloor> < \<lfloor>z\<rfloor>" using floor_mono[of y z] by linarith
  have "half_even y \<le> \<lceil>y\<rceil>" by (rule half_even_upper)
  also have "\<lceil>y\<rceil> \<le> \<lfloor>y\<rfloor> + 1" by (simp add: ceiling_altdef)
  also have "\<lfloor>y\<rfloor> + 1 \<le> \<lfloor>z\<rfloor>" using lt by simp
  also have "\<lfloor>z\<rfloor> \<le> half_even z" by (rule half_even_lower)
  finally show ?thesis .
qed

lemma flpos_nonneg: "0 \<le> x \<Longrightarrow> 0 \<le> flpos x"
proof -
  assume x: "0 \<le> x"
  define u where "u = pow2 (max (expo x) (- 1022) - 52)"
  have u: "0 < u" by (simp add: u_def pow2_pos)
  then have "0 \<le> x / u" using x by simp
  then have "half_even 0 \<le> half_even (x / u)" by (rule half_even_mono)
  then have "0 \<le> half_even (x / u)" using half_even_of_int[of 0] by simp
  then show ?thesis using u by (simp add: flpos_def Let_def u_def[symmetric])
qed

lemma flpos_mono:
  assumes x: "0 < x" and xy: "x \<le> y"
  shows "flpos x \<le> flpos y"
proof -
  define e where "e = expo x"
  define e' where "e' = expo y"
  define k where "k = max e (- 1022) - 52"
  define k' where "k' = max e' (- 1022) - 52"
  have y: "0 < y" using x xy by simp
  have bx: "pow2 e \<le> x" "x < pow2 (e + 1)" using expo_bounds[OF x] by (simp_all add: e_def)
  have by': "pow2 e' \<le> y" "y < pow2 (e' + 1)" using expo_bounds[OF y] by (simp_all add: e'_def)
  have "pow2 e < pow2 (e' + 1)" using bx by' xy by linarith
  then have ee: "e \<le> e'" using pow2_less_imp by fastforce
  then have kk: "k \<le> k'" by (simp add: k_def k'_def)
  have fx: "flpos x = of_int (half_even (x / pow2 k)) * pow2 k"
    by (simp add: flpos_def Let_def k_def e_def)
  have fy: "flpos y = of_int (half_even (y / pow2 k')) * pow2 k'"
    by (simp add: flpos_def Let_def k'_def e'_def)
  show ?thesis
  proof (cases "k = k'")
    case True
    have "x / pow2 k \<le> y / pow2 k" using xy pow2_pos[of k] by (simp add: divide_right_mono)
    then have "half_even (x / pow2 k) \<le> half_even (y / pow2 k)" by (rule half_even_mono)
    then have "real_of_int (half_even (x / pow2 k)) * pow2 k \<le> real_of_int (half_even (y / pow2 k)) * pow2 k"
      using pow2_pos[of k] by simp
    with True fx fy show ?thesis by simp
  next
    case False
    with kk have lt: "k < k'" by simp
    then have k'e: "k' = e' - 52" and e1: "e + 1 \<le> e'" by (auto simp: k_def k'_def)
    have d0: "0 \<le> e' - k" using lt k'e by simp
    have "x \<le> pow2 e'" using bx(2) pow2_mono[OF e1] by linarith
    then have "x / pow2 k \<le> pow2 e' / pow2 k" using pow2_pos[of k] by (simp add: divide_right_mono)
    also have "pow2 e' / pow2 k = of_int (2 ^ nat (e' - k))"
      by (simp only: pow2_diff pow2_nat[OF d0])
    finally have "half_even (x / pow2 k) \<le> half_even (of_int (2 ^ nat (e' - k)))"
      by (rule half_even_mono)
    then have "half_even (x / pow2 k) \<le> 2 ^ nat (e' - k)" by (simp only: half_even_of_int)
    then have "real_of_int (half_even (x / pow2 k)) \<le> real_of_int (2 ^ nat (e' - k))"
      by (simp only: of_int_le_iff)
    then have "real_of_int (half_even (x / pow2 k)) \<le> pow2 (e' - k)" by (simp only: pow2_nat[OF d0])
    then have "real_of_int (half_even (x / pow2 k)) * pow2 k \<le> pow2 (e' - k) * pow2 k"
      using pow2_pos[of k] by (simp add: mult_right_mono)
    also have "pow2 (e' - k) * pow2 k = pow2 e'" using pow2_add[of "e' - k" k] by simp
    finally have ub: "flpos x \<le> pow2 e'" by (simp only: fx)
    have d52: "(0::int) \<le> 52" by simp
    have "pow2 e' / pow2 k' \<le> y / pow2 k'" using by'(1) pow2_pos[of k'] by (simp add: divide_right_mono)
    moreover have "pow2 e' / pow2 k' = of_int (2 ^ nat 52)"
      using pow2_nat[OF d52] by (simp only: pow2_diff k'e) simp
    ultimately have "of_int (2 ^ nat 52) \<le> y / pow2 k'" by simp
    then have "half_even (of_int (2 ^ nat 52)) \<le> half_even (y / pow2 k')" by (rule half_even_mono)
    then have "2 ^ nat 52 \<le> half_even (y / pow2 k')" by (simp only: half_even_of_int)
    then have "real_of_int (2 ^ nat 52) \<le> real_of_int (half_even (y / pow2 k'))"
      by (simp only: of_int_le_iff)
    then have "pow2 52 \<le> real_of_int (half_even (y / pow2 k'))" by (simp only: pow2_nat[OF d52])
    then have "pow2 52 * pow2 k' \<le> real_of_int (half_even (y / pow2 k')) * pow2 k'"
      using pow2_pos[of k'] by (simp add: mult_right_mono)
    moreover have "pow2 52 * pow2 k' = pow2 e'" using pow2_add[of 52 k'] k'e by simp
    ultimately have "pow2 e' \<le> flpos y" by (simp only: fy)
    with ub show ?thesis by linarith
  qed
qed

lemma fl_0: "fl 0 = 0"
  by (simp add: fl_def)

lemma fl_nonneg: "0 \<le> x \<Longrightarrow> 0 \<le> fl x"
  using flpos_nonneg[of x] by (simp add: fl_def)

lemma fl_nonpos: "x \<le> 0 \<Longrightarrow> fl x \<le> 0"
  using flpos_nonneg[of "- x"] by (simp add: fl_def)

lemma fl_mono:
  assumes "x \<le> y"
  shows "fl x \<le> fl y"
proof -
  consider "0 < x" | "x \<le> 0" "0 \<le> y" | "y < 0" by linarith
  then show ?thesis
  proof cases
    case 1
    with assms have "0 < y" by simp
    with 1 assms show ?thesis using flpos_mono[of x y] by (simp add: fl_def)
  next
    case 2
    then show ?thesis using fl_nonpos[of x] fl_nonneg[of y] by linarith
  next
    case 3
    with assms have "x < 0" "0 < - y" "- y \<le> - x" by simp_all
    with 3 show ?thesis using flpos_mono[of "- y" "- x"] by (simp add: fl_def)
  qed
qed

lemma fl_100: "fl 100 = 100"
  by (simp add: fl_def flpos_def expo_def pow2_def half_even_def Let_def bitlen.simps)

lemma to_float_nonneg: "0 \<le> val a \<Longrightarrow> 0 \<le> to_float a"
  by (cases a) (simp_all add: fl_nonneg)

lemma py_mul_nonneg: "0 \<le> val a \<Longrightarrow> 0 \<le> val b \<Longrightarrow> 0 \<le> val (py_mul a b)"
  by (cases a; cases b) (simp_all add: fl_nonneg to_float_nonneg)

lemma int_truediv_nonneg: "0 \<le> a \<Longrightarrow> 0 \<le> b \<Longrightarrow> 0 \<le> val (int_truediv a b)"
  by (simp add: int_truediv_def fl_nonneg)

lemma py_min_bounds:
  "0 \<le> c \<Longrightarrow> 0 \<le> val b \<Longrightarrow> 0 \<le> val (py_min (PyInt c) b) \<and> val (py_min (PyInt c) b) \<le> of_int c"
  by (simp add: py_min_def)

lemma py_max_min_bounds:
  "0 \<le> val (py_max (PyInt 0) (py_min (PyInt 100) y))
   \<and> val (py_max (PyInt 0) (py_min (PyInt 100) y)) \<le> 100"
  by (simp add: py_max_def py_min_def)

lemma py_round2_bounds:
  assumes "0 \<le> val a" "val a \<le> 100"
  shows "0 \<le> val (py_round2 a) \<and> val (py_round2 a) \<le> 100"
proof (cases a)
  case (PyInt i)
  with assms show ?thesis by simp
next
  case (PyFloat x)
  with assms have x: "0 \<le> x" "x \<le> 100" by simp_all
  have "half_even (of_int 0) \<le> half_even (x * 100)" using x by (intro half_even_mono) simp
  then have k0: "0 \<le> half_even (x * 100)" by (simp only: half_even_of_int)
  have "half_even (x * 100) \<le> half_even (of_int 10000)" using x by (intro half_even_mono) simp
  then have k1: "half_even (x * 100) \<le> 10000" by (simp only: half_even_of_int)
  have "0 \<le> real_of_int (half_even (x * 100)) / 100" using k0 by simp
  then have l: "0 \<le> fl (real_of_int (half_even (x * 100)) / 100)" by (rule fl_nonneg)
  have "real_of_int (half_even (x * 100)) \<le> 10000" using k1 by linarith
  then have "real_of_int (half_even (x * 100)) / 100 \<le> 100" by simp
  then have "fl (real_of_int (half_even (x * 100)) / 100) \<le> fl 100" by (rule fl_mono)
  with l PyFloat show ?thesis by (simp add: fl_100)
qed

section \<open>Facts about the primitives\<close>

lemma as_strs_map: "as_strs (map PStr ss) = Inr ss"
  by (induction ss) auto

lemma is_in_iff: "is_in sub s \<longleftrightarrow> sublist sub s"
  by (induction s) (auto simp: sublist_Cons_right)

lemma hex_val_digit: "n < 16 \<Longrightarrow> hex_val (hex_digit n) = Some n"
  unfolding hex_val_def hex_digit_def
  by (auto simp: Let_def)

lemma int16_acc_bound:
  "\<forall>c\<in>set s. \<exists>n<16. hex_val c = Some n \<Longrightarrow> \<exists>m. int16_acc a s = Some m \<and> m < (a + 1) * 16 ^ length s"
proof (induction s arbitrary: a)
  case Nil
  then show ?case by simp
next
  case (Cons c s)
  then obtain n where n: "n < 16" "hex_val c = Some n" by auto
  from Cons obtain m where m: "int16_acc (16 * a + n) s = Some m" "m < (16 * a + n + 1) * 16 ^ length s"
    by (metis list.set_intros(2))
  have "16 * a + n + 1 \<le> (a + 1) * 16" using n by simp
  then have "(16 * a + n + 1) * 16 ^ length s \<le> ((a + 1) * 16) * 16 ^ length s"
    by (rule mult_right_mono) simp
  with m(2) have "m < ((a + 1) * 16) * 16 ^ length s" by (rule less_le_trans)
  then have "m < (a + 1) * 16 ^ length (c # s)" by (simp only: length_Cons power_Suc mult.assoc)
  with m(1) n(2) show ?case by simp
qed

lemma seed_of_Some: "\<exists>n. seed_of f r = Some n \<and> n < 2 ^ 32"
proof -
  let ?s = "take 8 (hexdigest (f (encode r)))"
  have len: "length ?s = 8" by (simp add: hexdigest_def)
  have "\<forall>c\<in>set (hexdigest (f (encode r))). \<exists>n<16. hex_val c = Some n"
  proof
    fix c assume "c \<in> set (hexdigest (f (encode r)))"
    then obtain i where c: "c = hex_digit (unat (f (encode r)) div 16 ^ (31 - i) mod 16)"
      by (auto simp: hexdigest_def)
    have "unat (f (encode r)) div 16 ^ (31 - i) mod 16 < 16" by simp
    then show "\<exists>n<16. hex_val c = Some n" using c hex_val_digit by auto
  qed
  then have "\<forall>c\<in>set ?s. \<exists>n<16. hex_val c = Some n" by (meson in_set_takeD)
  from int16_acc_bound[OF this, of 0] obtain m where "int16_acc 0 ?s = Some m" "m < 16 ^ 8"
    using len by auto
  moreover have "?s \<noteq> []" using len by auto
  ultimately show ?thesis by (auto simp: seed_of_def int16_def)
qed

lemma matched_filter:
  "filter (\<lambda>s. is_in (lower s) (lower r)) ss = filter (\<lambda>s. sublist (lower s) (lower r)) ss"
  by (simp add: is_in_iff)

lemma missing_filter:
  "filter (\<lambda>s. \<not> is_in (lower s) (lower r)) ss = filter (\<lambda>s. \<not> sublist (lower s) (lower r)) ss"
  by (simp add: is_in_iff)

lemma fallback_score_typed:
  "\<exists>seed. seed_of f r = Some seed \<and> seed < 2 ^ 32 \<and>
     fallback_score f (PStr r) (PStr j) (PList (map PStr ss)) = Inr (build_score seed r j ss)"
proof -
  obtain n where "seed_of f r = Some n" "n < 2 ^ 32" using seed_of_Some by blast
  then show ?thesis by (auto simp: as_strs_map)
qed

lemma skills_raw_bounds: "0 \<le> val (skills_raw r ss) \<and> val (skills_raw r ss) \<le> 100"
proof -
  have "0 \<le> val (int_truediv (int (matched_count r ss)) (int (max 1 (length ss))))"
    by (rule int_truediv_nonneg) simp_all
  then have "0 \<le> val (py_mul (int_truediv (int (matched_count r ss)) (int (max 1 (length ss)))) (PyInt 100))"
    by (rule py_mul_nonneg) simp
  moreover have "0 \<le> val (PyFloat (fl (12 / 10)))" by (simp add: fl_nonneg)
  ultimately have "0 \<le> val (py_mul (py_mul (int_truediv (int (matched_count r ss))
      (int (max 1 (length ss)))) (PyInt 100)) (PyFloat (fl (12 / 10))))"
    by (rule py_mul_nonneg)
  then show ?thesis using py_min_bounds[of 100] by (simp add: skills_raw_def)
qed

lemma semantic_raw_bounds: "0 \<le> val (semantic_raw r j) \<and> val (semantic_raw r j) \<le> 100"
proof -
  have "0 \<le> val (int_truediv (int (overlap r j)) (int (max 1 (card (words j)))))"
    by (rule int_truediv_nonneg) simp_all
  then have "0 \<le> val (py_mul (int_truediv (int (overlap r j)) (int (max 1 (card (words j))))) (PyInt 100))"
    by (rule py_mul_nonneg) simp
  then show ?thesis using py_min_bounds[of 100] by (simp add: semantic_raw_def)
qed

lemma overall_raw_bounds: "0 \<le> val (overall_raw seed r j ss) \<and> val (overall_raw seed r j ss) \<le> 100"
  unfolding overall_raw_def Let_def by (rule py_max_min_bounds)

section \<open>The scoring engine: bounds\<close>

text \<open>
  C7. For every resume text, job description and list of skills, with no precondition,
  the engine returns, and the three scores it returns lie between 0 and 100. The scores
  are the binary64 numbers (or ints) the code computes.
\<close>

theorem scores_bounded:
  "\<exists>res. fallback_score f (PStr r) (PStr j) (PList (map PStr ss)) = Inr res
      \<and> 0 \<le> val (overall_score res) \<and> val (overall_score res) \<le> 100
      \<and> 0 \<le> val (skills_score res) \<and> val (skills_score res) \<le> 100
      \<and> 0 \<le> val (semantic_score res) \<and> val (semantic_score res) \<le> 100"
proof -
  obtain seed where
    "fallback_score f (PStr r) (PStr j) (PList (map PStr ss)) = Inr (build_score seed r j ss)"
    using fallback_score_typed by blast
  moreover have "0 \<le> val (py_round2 (overall_raw seed r j ss))
      \<and> val (py_round2 (overall_raw seed r j ss)) \<le> 100"
    using overall_raw_bounds py_round2_bounds by blast
  moreover have "0 \<le> val (py_round2 (skills_raw r ss)) \<and> val (py_round2 (skills_raw r ss)) \<le> 100"
    using skills_raw_bounds py_round2_bounds by blast
  moreover have "0 \<le> val (py_round2 (semantic_raw r j)) \<and> val (py_round2 (semantic_raw r j)) \<le> 100"
    using semantic_raw_bounds py_round2_bounds by blast
  ultimately show ?thesis by (simp add: build_score_def Let_def)
qed

section \<open>The scoring engine: skills\<close>

text \<open>
  C6. The matched and the missing skills partition the required skills: they are disjoint,
  together they are all of the required skills, and a skill is matched exactly when its
  lowercase form occurs as a contiguous block of the lowercased resume text.
\<close>

theorem skills_partition:
  "\<exists>res. fallback_score f (PStr r) (PStr j) (PList (map PStr ss)) = Inr res
      \<and> set (matched_skills res) \<inter> set (missing_skills res) = {}
      \<and> set (matched_skills res) \<union> set (missing_skills res) = set ss
      \<and> matched_skills res = filter (\<lambda>s. sublist (lower s) (lower r)) ss
      \<and> missing_skills res = filter (\<lambda>s. \<not> sublist (lower s) (lower r)) ss"
proof -
  obtain seed where
    "fallback_score f (PStr r) (PStr j) (PList (map PStr ss)) = Inr (build_score seed r j ss)"
    using fallback_score_typed by blast
  moreover have "matched_skills (build_score seed r j ss) = filter (\<lambda>s. sublist (lower s) (lower r)) ss"
    by (simp add: build_score_def Let_def matched_filter)
  moreover have "missing_skills (build_score seed r j ss) = filter (\<lambda>s. \<not> sublist (lower s) (lower r)) ss"
    by (simp add: build_score_def Let_def missing_filter)
  ultimately show ?thesis by auto
qed

lemmas fl_eval = fl_def flpos_def expo_def pow2_def half_even_def Let_def bitlen.simps

lemmas char_eval = char_of_def bit_Suc_0_iff

lemma skills_raw_one_of_one: "skills_raw [] [[]] = PyInt 100"
proof -
  have mc: "matched_count [] [[]] = 1" by (simp add: matched_count_def lower_def)
  have a: "int_truediv (int 1) (int (max 1 (length [[]::char list]))) = PyFloat 1"
    by (simp add: int_truediv_def fl_eval)
  have b: "py_mul (PyFloat 1) (PyInt 100) = PyFloat 100" by (simp add: fl_eval)
  have k: "PyFloat (fl (12 / 10)) = PyFloat (5404319552844595 / 4503599627370496)"
    by (simp add: fl_eval)
  have c: "py_mul (PyFloat 100) (PyFloat (5404319552844595 / 4503599627370496)) = PyFloat 120"
    by (simp add: fl_eval)
  have d: "py_min (PyInt 100) (PyFloat 120) = PyInt 100" by (simp add: py_min_def)
  show ?thesis by (simp only: skills_raw_def mc a b k c d)
qed

text \<open>
  C10. An empty string among the required skills is always matched, whatever the resume;
  for the empty resume and the single empty skill the engine reports one match out of one
  and a skills score of 100.
\<close>

theorem empty_skill_matched:
  "(\<exists>res. fallback_score f (PStr r) (PStr j) (PList (map PStr (ss1 @ [] # ss2))) = Inr res
       \<and> [] \<in> set (matched_skills res) \<and> [] \<notin> set (missing_skills res)
       \<and> 1 \<le> matched_count r (ss1 @ [] # ss2))
   \<and> (\<exists>res. fallback_score f (PStr []) (PStr j) (PList [PStr []]) = Inr res
       \<and> matched_skills res = [[]] \<and> missing_skills res = []
       \<and> matched_count [] [[]] = 1
       \<and> strengths (explanation res) = [''Matched 1/1 required skills'']
       \<and> skills_score res = PyInt 100 \<and> val (skills_score res) = 100
       \<and> 0 < val (skills_score res))"
proof -
  have nil_in: "is_in [] s" for s by (induction s) auto
  have low: "lower [] = []" by (simp add: lower_def)
  obtain seed where a:
    "fallback_score f (PStr r) (PStr j) (PList (map PStr (ss1 @ [] # ss2)))
       = Inr (build_score seed r j (ss1 @ [] # ss2))"
    using fallback_score_typed by blast
  have a1: "[] \<in> set (matched_skills (build_score seed r j (ss1 @ [] # ss2)))"
    by (simp add: build_score_def Let_def low nil_in)
  have a2: "[] \<notin> set (missing_skills (build_score seed r j (ss1 @ [] # ss2)))"
    by (simp add: build_score_def Let_def low nil_in)
  have a3: "1 \<le> matched_count r (ss1 @ [] # ss2)"
    by (simp add: matched_count_def low nil_in)
  obtain seed' where b:
    "fallback_score f (PStr []) (PStr j) (PList (map PStr [[]])) = Inr (build_score seed' [] j [[]])"
    using fallback_score_typed by blast
  have mc: "matched_count [] [[]] = 1" by (simp add: matched_count_def low)
  have b1: "matched_skills (build_score seed' [] j [[]]) = [[]]"
    by (simp add: build_score_def Let_def low)
  have b2: "missing_skills (build_score seed' [] j [[]]) = []"
    by (simp add: build_score_def Let_def low)
  have b3: "strengths (explanation (build_score seed' [] j [[]])) = [''Matched 1/1 required skills'']"
    by (simp add: build_score_def Let_def mc digit_char_def char_eval)
  have b4: "skills_score (build_score seed' [] j [[]]) = PyInt 100"
    by (simp add: build_score_def Let_def skills_raw_one_of_one)
  from a a1 a2 a3 have first: "\<exists>res. fallback_score f (PStr r) (PStr j) (PList (map PStr (ss1 @ [] # ss2))) = Inr res
       \<and> [] \<in> set (matched_skills res) \<and> [] \<notin> set (missing_skills res)
       \<and> 1 \<le> matched_count r (ss1 @ [] # ss2)" by blast
  from b b1 b2 b3 b4 mc have second: "\<exists>res. fallback_score f (PStr []) (PStr j) (PList [PStr []]) = Inr res
       \<and> matched_skills res = [[]] \<and> missing_skills res = []
       \<and> matched_count [] [[]] = 1
       \<and> strengths (explanation res) = [''Matched 1/1 required skills'']
       \<and> skills_score res = PyInt 100 \<and> val (skills_score res) = 100
       \<and> 0 < val (skills_score res)" by simp
  from first second show ?thesis by blast
qed

section \<open>The scoring engine: the scores\<close>

lemma words_set: "words t = {w \<in> set (split (lower t)). 3 < length w}"
  by (simp add: words_def)

lemma words_empty: "words [] = {}"
  by (simp add: words_def split_def lower_def)

lemma half_even_0: "half_even 0 = 0"
  using half_even_of_int[of 0] by simp

lemma py_round2_zero: "py_round2 (PyFloat 0) = PyFloat 0"
  by (simp add: half_even_0 fl_0)

lemma skills_raw_no_skills: "skills_raw r [] = PyFloat 0"
  by (simp add: skills_raw_def matched_count_def int_truediv_def fl_0 py_min_def)

lemma semantic_raw_no_words: "semantic_raw r [] = PyFloat 0"
  by (simp add: semantic_raw_def overlap_def words_empty int_truediv_def fl_0 py_min_def)

lemma variance_range:
  "fl (- (1 / 10)) \<le> val (variance seed) \<and> val (variance seed) \<le> fl (1 / 10)"
proof -
  have "seed mod 20 < 20" by simp
  then have "int (seed mod 20) - 10 \<le> 10" "- 10 \<le> int (seed mod 20) - 10" by linarith+
  then have "real_of_int (int (seed mod 20) - 10) \<le> 10" "- 10 \<le> real_of_int (int (seed mod 20) - 10)"
    by linarith+
  then have lo: "- (1 / 10) \<le> real_of_int (int (seed mod 20) - 10) / 100"
    and hi: "real_of_int (int (seed mod 20) - 10) / 100 \<le> 1 / 10" by simp_all
  have "fl (- (1 / 10)) \<le> fl (real_of_int (int (seed mod 20) - 10) / 100)"
    using lo by (rule fl_mono)
  moreover have "fl (real_of_int (int (seed mod 20) - 10) / 100) \<le> fl (1 / 10)"
    using hi by (rule fl_mono)
  ultimately have "fl (- (1 / 10)) \<le> fl (real_of_int (int (seed mod 20) - 10) / 100)
    \<and> fl (real_of_int (int (seed mod 20) - 10) / 100) \<le> fl (1 / 10)" by simp
  then show ?thesis by (simp add: variance_def int_truediv_def)
qed

lemma upt8: "[0..<8] = [0, 1, 2, 3, 4, 5, 6, 7]"
  by (simp add: upt_rec)

lemma take8_hexdigest:
  "take 8 (hexdigest d) = map (\<lambda>i. hex_digit (unat d div 16 ^ (31 - i) mod 16)) [0, 1, 2, 3, 4, 5, 6, 7]"
  by (simp add: hexdigest_def take_map upt8)

lemma seed_b: "seed_of (const_digest 0xaefbddad1c6293fdb4bd1feed8b04344) ''bash java scala'' = Some 2935741869"
  by (simp add: seed_of_def const_digest_def take8_hexdigest hex_digit_def char_eval int16_def hex_val_def)

lemma low_b: "lower ''bash java scala'' = ''bash java scala''" "lower ''bash'' = ''bash''"
  "lower ''java'' = ''java''" "lower ''q0'' = ''q0''" "lower ''q1'' = ''q1''" "lower ''q2'' = ''q2''"
  "lower ''q3'' = ''q3''" "lower ''q4'' = ''q4''"
  by (simp_all add: lower_def lower_char_def)

lemma mc_b: "matched_count ''bash java scala'' [''bash'', ''java'', ''q0'', ''q1'', ''q2'', ''q3'', ''q4''] = 2"
  by (simp add: matched_count_def low_b)

lemma sk_b: "skills_raw ''bash java scala'' [''bash'', ''java'', ''q0'', ''q1'', ''q2'', ''q3'', ''q4'']
    = PyFloat (4825285315039817 / 140737488355328)"
  by (simp add: skills_raw_def mc_b int_truediv_def py_min_def fl_eval)

lemma words_b: "words ''bash java scala'' = {''bash'', ''java'', ''scala''}" "words ''bash'' = {''bash''}"
  by (simp_all add: words_def split_def low_b is_space_def)

lemma ov_b: "overlap ''bash java scala'' ''bash'' = 1"
  by (simp add: overlap_def words_b)

lemma sem_b: "semantic_raw ''bash java scala'' ''bash'' = PyInt 100"
  by (simp add: semantic_raw_def ov_b words_b int_truediv_def py_min_def fl_eval)

lemma lb_b: "length_bonus ''bash java scala'' = PyFloat (1080863910568919 / 36028797018963968)"
  by (simp add: length_bonus_def int_truediv_def py_min_def fl_eval)

lemma var_b: "variance 2935741869 = PyFloat (- (5764607523034235 / 576460752303423488))"
  by (simp add: variance_def int_truediv_def fl_eval)


lemma ovr_b: "overall_raw 2935741869 ''bash java scala'' ''bash''
     [''bash'', ''java'', ''q0'', ''q1'', ''q2'', ''q3'', ''q4'']
    = PyFloat (8443603919408793 / 140737488355328)"
  by (simp add: overall_raw_def Let_def sk_b sem_b lb_b var_b score_from_components_def
      py_min_def py_max_def fl_eval)

lemma rounds_b:
  "py_round2 (PyFloat (8443603919408793 / 140737488355328)) = PyFloat 60"
  "py_round2 (PyFloat (4825285315039817 / 140737488355328)) = PyFloat (4825888475704197 / 140737488355328)"
  by (simp_all add: fl_eval)

lemma build_b: "build_score 2935741869 ''bash java scala'' ''bash''
     [''bash'', ''java'', ''q0'', ''q1'', ''q2'', ''q3'', ''q4'']
   = \<lparr> overall_score = PyFloat 60,
        skills_score = PyFloat (4825888475704197 / 140737488355328),
        semantic_score = PyInt 100,
        found_skills = [''bash'', ''java''], matched_skills = [''bash'', ''java''],
        missing_skills = [''q0'', ''q1'', ''q2'', ''q3'', ''q4''],
        explanation = \<lparr> strengths = [''Matched 2/7 required skills''],
                        gaps = [''q0'', ''q1'', ''q2'', ''q3'', ''q4''],
                        recommendation = ''Maybe'' \<rparr> \<rparr>"
  by (simp add: build_score_def Let_def ovr_b sk_b sem_b low_b mc_b recommend_def
      digit_char_def char_eval fl_eval)

lemma seed_a: "seed_of (const_digest 0x0cc175b9c0f1b6a831c399e269772661) ''a'' = Some 214005177"
  by (simp add: seed_of_def const_digest_def take8_hexdigest hex_digit_def char_eval int16_def hex_val_def)

lemma low_a: "lower ''a'' = ''a''" "lower ''b'' = ''b''" "lower ''c'' = ''c''" "lower ''d'' = ''d''"
  "lower ''e'' = ''e''" "lower ''f'' = ''f''" "lower ''g'' = ''g''" "lower [] = []"
  by (simp_all add: lower_def lower_char_def)

lemma mc_a: "matched_count ''a'' [''a'', ''b'', ''c'', ''d'', ''e'', ''f'', ''g''] = 1"
  by (simp add: matched_count_def low_a)

lemma sk_a: "skills_raw ''a'' [''a'', ''b'', ''c'', ''d'', ''e'', ''f'', ''g''] = PyFloat (4825285315039817 / 281474976710656)"
  by (simp add: skills_raw_def mc_a int_truediv_def py_min_def fl_eval)

lemma words_a: "words ''a'' = {}"
  by (simp add: words_def split_def low_a is_space_def)

lemma lb_a: "length_bonus ''a'' = PyFloat (1152921504606847 / 576460752303423488)"
  by (simp add: length_bonus_def int_truediv_def py_min_def fl_eval)

lemma var_a: "variance 214005177 = PyFloat (1261007895663739 / 18014398509481984)"
  by (simp add: variance_def int_truediv_def fl_eval)

lemma ovr_a: "overall_raw 214005177 ''a'' [] [''a'', ''b'', ''c'', ''d'', ''e'', ''f'', ''g''] = PyFloat (6196871057411447 / 562949953421312)"
  by (simp add: overall_raw_def Let_def sk_a semantic_raw_no_words lb_a var_a
      score_from_components_def py_min_def py_max_def fl_eval)

lemma build_a: "build_score 214005177 ''a'' [] [''a'', ''b'', ''c'', ''d'', ''e'', ''f'', ''g'']
   = \<lparr> overall_score = PyFloat (6198078987168645 / 562949953421312),
        skills_score = PyFloat (1206120275205161 / 70368744177664),
        semantic_score = PyFloat 0,
        found_skills = [''a''], matched_skills = [''a''],
        missing_skills = [''b'', ''c'', ''d'', ''e'', ''f'', ''g''],
        explanation = \<lparr> strengths = [''Matched 1/7 required skills''],
                        gaps = [''b'', ''c'', ''d'', ''e'', ''f'', ''g''],
                        recommendation = ''Not Recommended'' \<rparr> \<rparr>"
  by (simp add: build_score_def Let_def ovr_a sk_a semantic_raw_no_words low_a mc_a recommend_def
      digit_char_def char_eval fl_eval)

text \<open>
  C1 as stated fails: the returned skills score is the formula's value rounded to two
  decimals. For the resume \<open>a\<close> and seven skills of which one matches, the formula gives
  17.142857142857142 in binary64 (120/7 exactly) and the engine returns 17.14.
\<close>

theorem skills_score_unrounded_counterexample:
  "fallback_score (const_digest 0x0cc175b9c0f1b6a831c399e269772661) (PStr ''a'') (PStr [])
     (PList [PStr ''a'', PStr ''b'', PStr ''c'', PStr ''d'', PStr ''e'', PStr ''f'', PStr ''g''])
   = Inr \<lparr> overall_score = PyFloat (6198078987168645 / 562949953421312),
        skills_score = PyFloat (1206120275205161 / 70368744177664),
        semantic_score = PyFloat 0,
        found_skills = [''a''], matched_skills = [''a''],
        missing_skills = [''b'', ''c'', ''d'', ''e'', ''f'', ''g''],
        explanation = \<lparr> strengths = [''Matched 1/7 required skills''],
                        gaps = [''b'', ''c'', ''d'', ''e'', ''f'', ''g''],
                        recommendation = ''Not Recommended'' \<rparr> \<rparr>
   \<and> py_min (PyInt 100)
        (py_mul (py_mul (int_truediv (int (matched_count ''a'' [''a'', ''b'', ''c'', ''d'', ''e'', ''f'', ''g''])) (int (max 1 (length [''a'', ''b'', ''c'', ''d'', ''e'', ''f'', ''g'']))))
                        (PyInt 100))
                (PyFloat (fl (12 / 10))))
       = PyFloat (4825285315039817 / 281474976710656)
   \<and> (1206120275205161 / 70368744177664 :: real) \<noteq> 4825285315039817 / 281474976710656
   \<and> (1206120275205161 / 70368744177664 :: real) \<noteq> 120 / 7"
  using sk_a by (simp add: seed_a build_a skills_raw_def)

text \<open>
  C1, amended. The returned skills score and semantic score are the two formulas, evaluated
  in binary64 arithmetic and then rounded to two decimals by \<open>round\<close>; no skills give a
  skills score of 0 and an empty job description gives a semantic score of 0.
\<close>

theorem skills_semantic_rounded:
  "(\<exists>res. fallback_score f (PStr r) (PStr j) (PList (map PStr ss)) = Inr res
       \<and> skills_score res =
           py_round2 (py_min (PyInt 100)
             (py_mul (py_mul (int_truediv (int (length (filter (\<lambda>s. sublist (lower s) (lower r)) ss)))
                                          (int (max 1 (length ss))))
                             (PyInt 100))
                     (PyFloat (fl (12 / 10)))))
       \<and> semantic_score res =
           py_round2 (py_min (PyInt 100)
             (py_mul (int_truediv
                        (int (card ({w \<in> set (split (lower r)). 3 < length w}
                                    \<inter> {w \<in> set (split (lower j)). 3 < length w})))
                        (int (max 1 (card {w \<in> set (split (lower j)). 3 < length w}))))
                     (PyInt 100))))
   \<and> (\<exists>res. fallback_score f (PStr r) (PStr j) (PList []) = Inr res
          \<and> skills_score res = PyFloat 0 \<and> val (skills_score res) = 0)
   \<and> (\<exists>res. fallback_score f (PStr r) (PStr []) (PList (map PStr ss)) = Inr res
          \<and> semantic_score res = PyFloat 0 \<and> val (semantic_score res) = 0)"
proof -
  have sk: "skills_score (build_score seed r j ss) =
           py_round2 (py_min (PyInt 100)
             (py_mul (py_mul (int_truediv (int (length (filter (\<lambda>s. sublist (lower s) (lower r)) ss)))
                                          (int (max 1 (length ss))))
                             (PyInt 100))
                     (PyFloat (fl (12 / 10)))))" for seed
    by (simp only: build_score_def Let_def skills_raw_def matched_count_def matched_filter
        score.simps)
  have sem: "semantic_score (build_score seed r j ss) =
           py_round2 (py_min (PyInt 100)
             (py_mul (int_truediv
                        (int (card ({w \<in> set (split (lower r)). 3 < length w}
                                    \<inter> {w \<in> set (split (lower j)). 3 < length w})))
                        (int (max 1 (card {w \<in> set (split (lower j)). 3 < length w}))))
                     (PyInt 100)))" for seed
    by (simp only: build_score_def Let_def semantic_raw_def overlap_def words_set score.simps)
  obtain s1 where a: "fallback_score f (PStr r) (PStr j) (PList (map PStr ss)) = Inr (build_score s1 r j ss)"
    using fallback_score_typed by blast
  obtain s2 where b: "fallback_score f (PStr r) (PStr j) (PList (map PStr [])) = Inr (build_score s2 r j [])"
    using fallback_score_typed by blast
  obtain s3 where c: "fallback_score f (PStr r) (PStr []) (PList (map PStr ss)) = Inr (build_score s3 r [] ss)"
    using fallback_score_typed by blast
  have b1: "skills_score (build_score s2 r j []) = PyFloat 0"
    by (simp add: build_score_def Let_def skills_raw_no_skills py_round2_zero del: py_round2.simps)
  have c1: "semantic_score (build_score s3 r [] ss) = PyFloat 0"
    by (simp add: build_score_def Let_def semantic_raw_no_words py_round2_zero del: py_round2.simps)
  from a sk sem have first: "\<exists>res. fallback_score f (PStr r) (PStr j) (PList (map PStr ss)) = Inr res
       \<and> skills_score res =
           py_round2 (py_min (PyInt 100)
             (py_mul (py_mul (int_truediv (int (length (filter (\<lambda>s. sublist (lower s) (lower r)) ss)))
                                          (int (max 1 (length ss))))
                             (PyInt 100))
                     (PyFloat (fl (12 / 10)))))
       \<and> semantic_score res =
           py_round2 (py_min (PyInt 100)
             (py_mul (int_truediv
                        (int (card ({w \<in> set (split (lower r)). 3 < length w}
                                    \<inter> {w \<in> set (split (lower j)). 3 < length w})))
                        (int (max 1 (card {w \<in> set (split (lower j)). 3 < length w}))))
                     (PyInt 100)))"
    by blast
  from b b1 have second: "\<exists>res. fallback_score f (PStr r) (PStr j) (PList []) = Inr res
          \<and> skills_score res = PyFloat 0 \<and> val (skills_score res) = 0"
    by simp
  from c c1 have third: "\<exists>res. fallback_score f (PStr r) (PStr []) (PList (map PStr ss)) = Inr res
          \<and> semantic_score res = PyFloat 0 \<and> val (semantic_score res) = 0" by simp
  from first second third show ?thesis by blast
qed

text \<open>
  C2. The overall score: the length bonus, the weighted sum capped at 100, the variance
  drawn from the first eight hexadecimal digits of the digest (a number below \<open>2^32\<close>),
  the clamp to 0..100 and the final rounding of all three scores. Every operation is the
  binary64 one; the variance lies between the binary64 numbers -0.1 and 0.1.
\<close>

theorem overall_pipeline:
  "\<exists>res seed. fallback_score f (PStr r) (PStr j) (PList (map PStr ss)) = Inr res
      \<and> int16 (take 8 (hexdigest (f (encode r)))) = Some seed \<and> seed < 2 ^ 32
      \<and> length_bonus r = py_min (PyInt 20) (int_truediv (int (length r)) 500)
      \<and> variance seed = int_truediv (int (seed mod 20) - 10) 100
      \<and> fl (- (1 / 10)) \<le> val (variance seed) \<and> val (variance seed) \<le> fl (1 / 10)
      \<and> overall_score res =
          py_round2 (py_max (PyInt 0) (py_min (PyInt 100)
            (py_mul
               (py_min (PyInt 100)
                  (py_add (py_add (py_mul (skills_raw r ss) (PyFloat (fl (6 / 10))))
                                  (py_mul (semantic_raw r j) (PyFloat (fl (4 / 10)))))
                          (length_bonus r)))
               (py_add (PyInt 1) (variance seed)))))
      \<and> skills_score res = py_round2 (skills_raw r ss)
      \<and> semantic_score res = py_round2 (semantic_raw r j)"
proof -
  obtain seed where s: "seed_of f r = Some seed" "seed < 2 ^ 32"
    "fallback_score f (PStr r) (PStr j) (PList (map PStr ss)) = Inr (build_score seed r j ss)"
    using fallback_score_typed by blast
  have o: "overall_score (build_score seed r j ss) =
          py_round2 (py_max (PyInt 0) (py_min (PyInt 100)
            (py_mul
               (py_min (PyInt 100)
                  (py_add (py_add (py_mul (skills_raw r ss) (PyFloat (fl (6 / 10))))
                                  (py_mul (semantic_raw r j) (PyFloat (fl (4 / 10)))))
                          (length_bonus r)))
               (py_add (PyInt 1) (variance seed)))))"
    by (simp only: build_score_def Let_def overall_raw_def score_from_components_def score.simps)
  have k: "skills_score (build_score seed r j ss) = py_round2 (skills_raw r ss)"
    "semantic_score (build_score seed r j ss) = py_round2 (semantic_raw r j)"
    by (simp_all only: build_score_def Let_def score.simps)
  from s(1) have i: "int16 (take 8 (hexdigest (f (encode r)))) = Some seed"
    by (simp only: seed_of_def)
  have lb: "length_bonus r = py_min (PyInt 20) (int_truediv (int (length r)) 500)"
    by (simp only: length_bonus_def)
  have v: "variance seed = int_truediv (int (seed mod 20) - 10) 100"
    by (simp only: variance_def)
  from s(2,3) o k i lb v variance_range[of seed] show ?thesis by blast
qed

section \<open>The scoring engine: the explanation\<close>

text \<open>
  C9 as stated, read on the returned score, fails: the recommendation is chosen from the
  overall value before it is rounded. For the resume \<open>bash java scala\<close> the overall value
  is 59.99541428571428, so the engine returns the score 60.0 with the recommendation
  \<open>Maybe\<close>.
\<close>

theorem recommendation_on_returned_score_counterexample:
  "fallback_score (const_digest 0xaefbddad1c6293fdb4bd1feed8b04344)
     (PStr ''bash java scala'') (PStr ''bash'')
     (PList [PStr ''bash'', PStr ''java'', PStr ''q0'', PStr ''q1'', PStr ''q2'', PStr ''q3'', PStr ''q4''])
   = Inr \<lparr> overall_score = PyFloat 60,
        skills_score = PyFloat (4825888475704197 / 140737488355328),
        semantic_score = PyInt 100,
        found_skills = [''bash'', ''java''], matched_skills = [''bash'', ''java''],
        missing_skills = [''q0'', ''q1'', ''q2'', ''q3'', ''q4''],
        explanation = \<lparr> strengths = [''Matched 2/7 required skills''],
                        gaps = [''q0'', ''q1'', ''q2'', ''q3'', ''q4''],
                        recommendation = ''Maybe'' \<rparr> \<rparr>
   \<and> 60 \<le> val (PyFloat 60) \<and> val (PyFloat 60) < 80 \<and> ''Maybe'' \<noteq> ''Recommended''"
  by (simp add: seed_b build_b)

lemma recommend_cases:
  "(recommend x = ''Highly Recommended'') = (80 \<le> val x)"
  "(recommend x = ''Recommended'') = (60 \<le> val x \<and> val x < 80)"
  "(recommend x = ''Maybe'') = (40 \<le> val x \<and> val x < 60)"
  "(recommend x = ''Not Recommended'') = (val x < 40)"
  unfolding recommend_def by auto

text \<open>
  C9, amended. With \<open>overall\<close> the clamped overall value before rounding, of which the
  returned overall score is the rounding to two decimals: the recommendation is Highly
  Recommended iff \<open>overall \<ge> 80\<close>, Recommended iff \<open>60 \<le> overall < 80\<close>, Maybe iff
  \<open>40 \<le> overall < 60\<close>, Not Recommended otherwise; the strengths are the single sentence
  counting the matched skills; the gaps are the unmatched skills in input order.
\<close>

theorem explanation_reference:
  "\<exists>res seed. fallback_score f (PStr r) (PStr j) (PList (map PStr ss)) = Inr res
      \<and> seed_of f r = Some seed
      \<and> overall_score res = py_round2 (overall_raw seed r j ss)
      \<and> (recommendation (explanation res) = ''Highly Recommended'')
          = (80 \<le> val (overall_raw seed r j ss))
      \<and> (recommendation (explanation res) = ''Recommended'')
          = (60 \<le> val (overall_raw seed r j ss) \<and> val (overall_raw seed r j ss) < 80)
      \<and> (recommendation (explanation res) = ''Maybe'')
          = (40 \<le> val (overall_raw seed r j ss) \<and> val (overall_raw seed r j ss) < 60)
      \<and> (recommendation (explanation res) = ''Not Recommended'')
          = (val (overall_raw seed r j ss) < 40)
      \<and> strengths (explanation res) =
            [''Matched '' @ str_nat (length (filter (\<lambda>s. sublist (lower s) (lower r)) ss))
               @ ''/'' @ str_nat (length ss) @ '' required skills'']
      \<and> gaps (explanation res) = filter (\<lambda>s. \<not> sublist (lower s) (lower r)) ss"
proof -
  obtain seed where s: "seed_of f r = Some seed"
    "fallback_score f (PStr r) (PStr j) (PList (map PStr ss)) = Inr (build_score seed r j ss)"
    using fallback_score_typed by blast
  have e: "explanation (build_score seed r j ss) =
      \<lparr> strengths = [''Matched '' @ str_nat (length (filter (\<lambda>s. sublist (lower s) (lower r)) ss))
               @ ''/'' @ str_nat (length ss) @ '' required skills''],
        gaps = filter (\<lambda>s. \<not> sublist (lower s) (lower r)) ss,
        recommendation = recommend (overall_raw seed r j ss) \<rparr>"
    by (simp only: build_score_def Let_def matched_count_def matched_filter missing_filter score.simps)
  have o: "overall_score (build_score seed r j ss) = py_round2 (overall_raw seed r j ss)"
    by (simp only: build_score_def Let_def score.simps)
  show ?thesis
    apply (rule exI[of _ "build_score seed r j ss"], rule exI[of _ seed])
    apply (simp only: s e o explanation.simps recommend_cases)
    done
qed

section \<open>The batch pipeline: records, order and errors\<close>

lemma store_absent: "k \<notin> fst ` set d \<Longrightarrow> store k v d = d @ [(k, v)]"
  by (induction d) auto

lemma dict_update_append:
  "distinct (map fst ps) \<Longrightarrow> fst ` set ps \<inter> fst ` set d = {} \<Longrightarrow> dict_update d ps = d @ ps"
proof (induction ps arbitrary: d)
  case Nil
  then show ?case by simp
next
  case (Cons p ps)
  then have a: "fst p \<notin> fst ` set d" by auto
  have "dict_update d (p # ps) = dict_update (d @ [p]) ps"
    using store_absent[OF a, of "snd p"] by simp
  also have "\<dots> = (d @ [p]) @ ps"
    using Cons.prems by (intro Cons.IH) auto
  finally show ?case by simp
qed

lemma run_item_make_item:
  "run_item L (make_item q) =
     (case outcome L q of
        Inr s \<Rightarrow> to_dict s
      | Inl e \<Rightarrow> [(''error'', PBool True), (''message'', PStr (str_exn e)),
                  (''trace'', PStr (format_exc L e))])"
  by (simp add: run_item_def outcome_def process_single_sync_def make_item_def dict_get_def)

lemma record_of_eq:
  "record_of L q = make_item q @
     (case outcome L q of
        Inr s \<Rightarrow> to_dict s
      | Inl e \<Rightarrow> [(''error'', PBool True), (''message'', PStr (str_exn e)),
                  (''trace'', PStr (format_exc L e))])"
proof (cases "outcome L q")
  case (Inl e)
  have "dict_update (make_item q) [(''error'', PBool True), (''message'', PStr (str_exn e)),
                  (''trace'', PStr (format_exc L e))]
      = make_item q @ [(''error'', PBool True), (''message'', PStr (str_exn e)),
                  (''trace'', PStr (format_exc L e))]"
    by (rule dict_update_append) (simp_all add: make_item_def)
  with Inl show ?thesis by (simp add: record_of_def run_item_make_item)
next
  case (Inr s)
  have "dict_update (make_item q) (to_dict s) = make_item q @ to_dict s"
    by (rule dict_update_append) (simp_all add: make_item_def to_dict_def)
  with Inr show ?thesis by (simp add: record_of_def run_item_make_item)
qed

lemma merged_make_item: "merged L (map make_item requests) = map (record_of L) requests"
  by (induction requests) (simp_all add: merged_def record_of_def)

lemma fallback_score_build:
  "fallback_score f a b c = Inr s \<Longrightarrow> \<exists>seed r j sk. s = build_score seed r j sk"
  by (cases a; cases b) (auto split: option.splits sum.splits)

lemma outcome_score_nonneg:
  assumes "outcome L q = Inr s"
  shows "0 \<le> val (overall_score s)"
proof -
  from assms obtain a b c where "fallback_score (md5 L) a b c = Inr s"
    by (auto simp: outcome_def attempt_def split: sum.splits)
  then obtain seed r j sk where "s = build_score seed r j sk"
    using fallback_score_build by blast
  then show ?thesis
    using overall_raw_bounds py_round2_bounds by (simp add: build_score_def Let_def)
qed

lemma sort_key_record:
  "sort_key_rec (record_of L q) =
     (case outcome L q of Inr s \<Rightarrow> num_val (overall_score s) | Inl e \<Rightarrow> PInt (- 1))"
  by (cases "outcome L q")
     (simp_all add: record_of_eq sort_key_rec_def dict_get_def make_item_def to_dict_def)

lemma num_of_num_val: "num_of (num_val n) = Some (val n)"
  by (cases n) simp_all

lemma key_num_record:
  "key_num (record_of L q) = (case outcome L q of Inr s \<Rightarrow> val (overall_score s) | Inl e \<Rightarrow> - 1)"
  by (cases "outcome L q") (simp_all add: key_num_def sort_key_record num_of_num_val)

lemma key_is_number: "num_of (sort_key_rec (record_of L q)) \<noteq> None"
  by (cases "outcome L q") (simp_all add: sort_key_record num_of_num_val)

lemma errored_record: "errored (record_of L q) = isl (outcome L q)"
  by (cases "outcome L q")
     (simp_all add: errored_def has_key_def record_of_eq make_item_def to_dict_def)

lemma scored_record: "scored (record_of L q) = (\<not> isl (outcome L q))"
  by (cases "outcome L q")
     (simp_all add: scored_def has_key_def record_of_eq make_item_def to_dict_def)

lemma sort_key_short: "length xs \<le> 1 \<Longrightarrow> sort_key f xs = xs"
  by (cases xs) simp_all

lemma out_sorted_numbers:
  "list_all (\<lambda>r. num_of (sort_key_rec r) \<noteq> None) out
   \<Longrightarrow> out_sorted out = Some (sort_key (\<lambda>r. - key_num r) out)"
  by (simp add: out_sorted_def sort_key_short)

lemma batch_result:
  "score_candidates_batch L requests
     = Some (sort_key (\<lambda>r. - key_num r) (map (record_of L) requests))"
proof -
  have "list_all (\<lambda>r. num_of (sort_key_rec r) \<noteq> None) (map (record_of L) requests)"
    using key_is_number by (auto simp: list_all_iff)
  then show ?thesis
    by (simp only: score_candidates_batch_def process_bulk_async_def merged_make_item
        out_sorted_numbers)
qed


lemma split_sorted:
  fixes g :: "'a \<Rightarrow> real"
  assumes "sorted (map g xs)" "\<forall>x\<in>set xs. P x \<longrightarrow> g x \<le> 0" "\<forall>x\<in>set xs. \<not> P x \<longrightarrow> g x = 1"
  shows "xs = filter P xs @ filter (\<lambda>x. \<not> P x) xs"
  using assms
proof (induction xs)
  case Nil
  then show ?case by simp
next
  case (Cons x xs)
  then have ih: "xs = filter P xs @ filter (\<lambda>x. \<not> P x) xs" by simp
  show ?case
  proof (cases "P x")
    case True
    with ih show ?thesis by simp
  next
    case False
    with Cons.prems have gx: "g x = 1" by simp
    have "\<forall>y\<in>set xs. \<not> P y"
    proof
      fix y assume y: "y \<in> set xs"
      with Cons.prems(1) gx have "1 \<le> g y" by auto
      with Cons.prems(2) y show "\<not> P y" by fastforce
    qed
    then have "filter P xs = []" "filter (\<lambda>x. \<not> P x) xs = xs" by (simp_all add: filter_empty_conv)
    with False show ?thesis by simp
  qed
qed

lemma sorted_errors_last:
  "sort_key (\<lambda>r. - key_num r) (map (record_of L) requests)
     = filter (\<lambda>r. \<not> errored r) (sort_key (\<lambda>r. - key_num r) (map (record_of L) requests))
       @ filter errored (sort_key (\<lambda>r. - key_num r) (map (record_of L) requests))"
proof -
  let ?out = "sort_key (\<lambda>r. - key_num r) (map (record_of L) requests)"
  have a: "sorted (map (\<lambda>r. - key_num r) ?out)" by (rule sorted_sort_key)
  have b: "\<forall>r\<in>set ?out. \<not> errored r \<longrightarrow> - key_num r \<le> 0"
    by (auto simp: errored_record key_num_record outcome_score_nonneg split: sum.splits)
  have c: "\<forall>r\<in>set ?out. \<not> \<not> errored r \<longrightarrow> - key_num r = 1"
    by (auto simp: errored_record key_num_record split: sum.splits)
  from split_sorted[OF a b c] show ?thesis by simp
qed

lemma errored_in_order:
  "filter errored (sort_key (\<lambda>r. - key_num r) (map (record_of L) requests))
     = map (record_of L) (filter (\<lambda>q. isl (outcome L q)) requests)"
proof -
  let ?es = "map (record_of L) (filter (\<lambda>q. isl (outcome L q)) requests)"
  have f: "filter errored (map (record_of L) requests) = ?es"
    by (simp add: filter_map comp_def errored_record)
  have "map (\<lambda>r. - key_num r) ?es = replicate (length ?es) 1"
    by (induction requests) (auto simp: key_num_record split: sum.splits)
  then have "sorted (map (\<lambda>r. - key_num r) ?es)" by (simp add: sorted_replicate)
  then have "sort_key (\<lambda>r. - key_num r) ?es = ?es" by (rule sort_key_id_if_sorted)
  then show ?thesis by (simp only: filter_sort f)
qed

lemma example_order:
  "out_sorted [[(''fileName'', PStr ''C''), (''overall_score'', PFloat 55)],
               [(''fileName'', PStr ''A''), (''overall_score'', PFloat 90)],
               [(''fileName'', PStr ''B''), (''overall_score'', PFloat 90)],
               [(''fileName'', PStr ''D''), (''overall_score'', PFloat 10)]]
   = Some [[(''fileName'', PStr ''A''), (''overall_score'', PFloat 90)],
           [(''fileName'', PStr ''B''), (''overall_score'', PFloat 90)],
           [(''fileName'', PStr ''C''), (''overall_score'', PFloat 55)],
           [(''fileName'', PStr ''D''), (''overall_score'', PFloat 10)]]"
  by (simp add: out_sorted_def sort_key_rec_def dict_get_def key_num_def)

text \<open>
  C3. The endpoint answers the merged records, sorted by their key, largest first; the key
  of an errored record is -1 and that of a scored record is at least 0, so the errored
  records come after all scored ones; the sort is stable: the records with one key keep
  their input order. Scores 55, 90, 90, 10 with A before B give A, B, 55, 10.
\<close>

theorem batch_sorted_stable:
  "\<exists>out. score_candidates_batch L requests = Some out
      \<and> mset out = mset (merged L (map make_item requests))
      \<and> sorted_wrt (\<lambda>a b. key_num b \<le> key_num a) out
      \<and> (\<forall>k. filter (\<lambda>r. key_num r = k) out
               = filter (\<lambda>r. key_num r = k) (merged L (map make_item requests)))
      \<and> list_all (\<lambda>r. sort_key_rec r = PInt (- 1) \<and> key_num r = - 1) (filter errored out)
      \<and> list_all (\<lambda>r. 0 \<le> key_num r) (filter (\<lambda>r. \<not> errored r) out)
      \<and> out = filter (\<lambda>r. \<not> errored r) out @ filter errored out
      \<and> out_sorted [[(''fileName'', PStr ''C''), (''overall_score'', PFloat 55)],
                     [(''fileName'', PStr ''A''), (''overall_score'', PFloat 90)],
                     [(''fileName'', PStr ''B''), (''overall_score'', PFloat 90)],
                     [(''fileName'', PStr ''D''), (''overall_score'', PFloat 10)]]
          = Some [[(''fileName'', PStr ''A''), (''overall_score'', PFloat 90)],
                  [(''fileName'', PStr ''B''), (''overall_score'', PFloat 90)],
                  [(''fileName'', PStr ''C''), (''overall_score'', PFloat 55)],
                  [(''fileName'', PStr ''D''), (''overall_score'', PFloat 10)]]"
proof -
  let ?recs = "map (record_of L) requests"
  let ?out = "sort_key (\<lambda>r. - key_num r) ?recs"
  have m: "merged L (map make_item requests) = ?recs" by (rule merged_make_item)
  have 1: "score_candidates_batch L requests = Some ?out" by (rule batch_result)
  have 2: "mset ?out = mset ?recs" by simp
  have "sorted (map (\<lambda>r. - key_num r) ?out)" by (rule sorted_sort_key)
  then have 3: "sorted_wrt (\<lambda>a b. key_num b \<le> key_num a) ?out" by (simp add: sorted_map)
  have 4: "filter (\<lambda>r. key_num r = k) ?out = filter (\<lambda>r. key_num r = k) ?recs" for k
    using sort_key_stable[of "\<lambda>r. - key_num r" "- k" ?recs] by simp
  have 5: "list_all (\<lambda>r. sort_key_rec r = PInt (- 1) \<and> key_num r = - 1) (filter errored ?out)"
    by (auto simp: list_all_iff errored_record key_num_record sort_key_record split: sum.splits)
  have 6: "list_all (\<lambda>r. 0 \<le> key_num r) (filter (\<lambda>r. \<not> errored r) ?out)"
    by (auto simp: list_all_iff errored_record key_num_record outcome_score_nonneg split: sum.splits)
  have 7: "?out = filter (\<lambda>r. \<not> errored r) ?out @ filter errored ?out"
    by (rule sorted_errors_last)
  show ?thesis
    apply (rule exI[of _ ?out])
    apply (simp only: m)
    apply (intro conjI allI)
    apply (rule 1)
    apply (rule 2)
    apply (rule 3)
    apply (rule 4)
    apply (rule 5)
    apply (rule 6)
    apply (rule 7)
    apply (rule example_order)
    done
qed

lemma example_isolation:
  "score_candidates_batch
     \<lparr>md5 = const_digest 0x0cc175b9c0f1b6a831c399e269772661, format_exc = const_trace ''Traceback''\<rparr>
     [[(''resume_text'', PNone), (''fileName'', PStr ''bad.pdf'')],
      [(''resume_text'', PStr ''a''),
       (''required_skills'', PList [PStr ''a'', PStr ''b'', PStr ''c'', PStr ''d'', PStr ''e'', PStr ''f'', PStr ''g'']),
       (''fileName'', PStr ''good.pdf'')]]
   = Some
      [[(''resume_text'', PStr ''a''), (''job_description'', PStr []),
        (''required_skills'', PList [PStr ''a'', PStr ''b'', PStr ''c'', PStr ''d'', PStr ''e'', PStr ''f'', PStr ''g'']),
        (''fileName'', PStr ''good.pdf''),
        (''overall_score'', PFloat (6198078987168645 / 562949953421312)),
        (''skills_score'', PFloat (1206120275205161 / 70368744177664)),
        (''semantic_score'', PFloat 0),
        (''found_skills'', PList [PStr ''a'']),
        (''matched_skills'', PList [PStr ''a'']),
        (''missing_skills'', PList [PStr ''b'', PStr ''c'', PStr ''d'', PStr ''e'', PStr ''f'', PStr ''g'']),
        (''explanation'',
           PDict [(''strengths'', PList [PStr ''Matched 1/7 required skills'']),
                  (''gaps'', PList [PStr ''b'', PStr ''c'', PStr ''d'', PStr ''e'', PStr ''f'', PStr ''g'']),
                  (''recommendation'', PStr ''Not Recommended'')])],
       [(''resume_text'', PNone), (''job_description'', PStr []),
        (''required_skills'', PList []), (''fileName'', PStr ''bad.pdf''),
        (''error'', PBool True),
        (''message'', PStr (''object of type '' @ [CHR 0x27] @ ''NoneType'' @ [CHR 0x27] @ '' has no len()'')),
        (''trace'', PStr ''Traceback'')]]"
proof -
  let ?L = "\<lparr>md5 = const_digest 0x0cc175b9c0f1b6a831c399e269772661, format_exc = const_trace ''Traceback''\<rparr>"
  let ?good = "[(''resume_text'', PStr ''a''), (''job_description'', PStr []),
        (''required_skills'', PList [PStr ''a'', PStr ''b'', PStr ''c'', PStr ''d'', PStr ''e'', PStr ''f'', PStr ''g'']),
        (''fileName'', PStr ''good.pdf''),
        (''overall_score'', PFloat (6198078987168645 / 562949953421312)),
        (''skills_score'', PFloat (1206120275205161 / 70368744177664)),
        (''semantic_score'', PFloat 0),
        (''found_skills'', PList [PStr ''a'']),
        (''matched_skills'', PList [PStr ''a'']),
        (''missing_skills'', PList [PStr ''b'', PStr ''c'', PStr ''d'', PStr ''e'', PStr ''f'', PStr ''g'']),
        (''explanation'',
           PDict [(''strengths'', PList [PStr ''Matched 1/7 required skills'']),
                  (''gaps'', PList [PStr ''b'', PStr ''c'', PStr ''d'', PStr ''e'', PStr ''f'', PStr ''g'']),
                  (''recommendation'', PStr ''Not Recommended'')])]"
  let ?bad = "[(''resume_text'', PNone), (''job_description'', PStr []),
        (''required_skills'', PList []), (''fileName'', PStr ''bad.pdf''),
        (''error'', PBool True),
        (''message'', PStr (''object of type '' @ [CHR 0x27] @ ''NoneType'' @ [CHR 0x27] @ '' has no len()'')),
        (''trace'', PStr ''Traceback'')]"
  have m: "merged ?L (map make_item
     [[(''resume_text'', PNone), (''fileName'', PStr ''bad.pdf'')],
      [(''resume_text'', PStr ''a''),
       (''required_skills'', PList [PStr ''a'', PStr ''b'', PStr ''c'', PStr ''d'', PStr ''e'', PStr ''f'', PStr ''g'']),
       (''fileName'', PStr ''good.pdf'')]]) = [?bad, ?good]"
    by (simp add: merged_def run_item_def process_single_sync_def attempt_def make_item_def
        dict_get_def seed_a build_a to_dict_def const_trace_def)
  have k: "key_num ?bad = - 1" "key_num ?good = 6198078987168645 / 562949953421312"
    by (simp_all add: key_num_def sort_key_rec_def dict_get_def)
  have n: "list_all (\<lambda>r. num_of (sort_key_rec r) \<noteq> None) [?bad, ?good]"
    by (simp add: sort_key_rec_def dict_get_def del: not_None_eq)
  have "sort_key (\<lambda>r. - key_num r) [?bad, ?good] = [?good, ?bad]"
    by (simp add: k del: append.simps)
  with out_sorted_numbers[OF n] have "out_sorted [?bad, ?good] = Some [?good, ?bad]" by simp
  then show ?thesis
    by (simp only: score_candidates_batch_def process_bulk_async_def m)
qed

text \<open>
  C4. The endpoint answers one record for every request. The record is the item followed
  by the fields of the score, or, when the scoring raised, by the error flag, the message
  and the trace; no record carries both or neither. The errored records are those of the
  failing requests, after all scored records; the scored records are those of the others.
  In the batch of a request without a resume (\<open>null\<close>) and a sound one, the sound one is
  scored and comes first, the other carries the error and comes last.
\<close>

theorem batch_one_record_each:
  "\<exists>out. score_candidates_batch L requests = Some out
      \<and> length out = length requests
      \<and> mset out = mset (map (record_of L) requests)
      \<and> record_of L q = make_item q @
           (case outcome L q of
              Inr s \<Rightarrow> to_dict s
            | Inl e \<Rightarrow> [(''error'', PBool True), (''message'', PStr (str_exn e)),
                        (''trace'', PStr (format_exc L e))])
      \<and> list_all (\<lambda>r. errored r \<noteq> scored r) out
      \<and> filter errored out = map (record_of L) (filter (\<lambda>q. isl (outcome L q)) requests)
      \<and> mset (filter scored out)
          = mset (map (record_of L) (filter (\<lambda>q. \<not> isl (outcome L q)) requests))
      \<and> out = filter scored out @ filter errored out
      \<and> score_candidates_batch
           \<lparr>md5 = const_digest 0x0cc175b9c0f1b6a831c399e269772661, format_exc = const_trace ''Traceback''\<rparr>
           [[(''resume_text'', PNone), (''fileName'', PStr ''bad.pdf'')],
            [(''resume_text'', PStr ''a''),
             (''required_skills'', PList [PStr ''a'', PStr ''b'', PStr ''c'', PStr ''d'', PStr ''e'', PStr ''f'', PStr ''g'']),
             (''fileName'', PStr ''good.pdf'')]]
         = Some
            [[(''resume_text'', PStr ''a''), (''job_description'', PStr []),
              (''required_skills'', PList [PStr ''a'', PStr ''b'', PStr ''c'', PStr ''d'', PStr ''e'', PStr ''f'', PStr ''g'']),
              (''fileName'', PStr ''good.pdf''),
              (''overall_score'', PFloat (6198078987168645 / 562949953421312)),
              (''skills_score'', PFloat (1206120275205161 / 70368744177664)),
              (''semantic_score'', PFloat 0),
              (''found_skills'', PList [PStr ''a'']),
              (''matched_skills'', PList [PStr ''a'']),
              (''missing_skills'', PList [PStr ''b'', PStr ''c'', PStr ''d'', PStr ''e'', PStr ''f'', PStr ''g'']),
              (''explanation'',
                 PDict [(''strengths'', PList [PStr ''Matched 1/7 required skills'']),
                        (''gaps'', PList [PStr ''b'', PStr ''c'', PStr ''d'', PStr ''e'', PStr ''f'', PStr ''g'']),
                        (''recommendation'', PStr ''Not Recommended'')])],
             [(''resume_text'', PNone), (''job_description'', PStr []),
              (''required_skills'', PList []), (''fileName'', PStr ''bad.pdf''),
              (''error'', PBool True),
              (''message'', PStr (''object of type '' @ [CHR 0x27] @ ''NoneType'' @ [CHR 0x27] @ '' has no len()'')),
              (''trace'', PStr ''Traceback'')]]"
proof -
  let ?recs = "map (record_of L) requests"
  let ?out = "sort_key (\<lambda>r. - key_num r) ?recs"
  have 1: "score_candidates_batch L requests = Some ?out" by (rule batch_result)
  have 2: "length ?out = length requests" by simp
  have 3: "mset ?out = mset ?recs" by simp
  have 5: "list_all (\<lambda>r. errored r \<noteq> scored r) ?out"
    by (auto simp: list_all_iff errored_record scored_record)
  have 6: "filter errored ?out = map (record_of L) (filter (\<lambda>q. isl (outcome L q)) requests)"
    by (rule errored_in_order)
  have sc: "filter scored ?out = filter (\<lambda>r. \<not> errored r) ?out"
    by (rule filter_cong) (auto simp: errored_record scored_record)
  have "mset (filter scored ?out) = mset (filter scored ?recs)" by (simp add: filter_sort)
  also have "filter scored ?recs = map (record_of L) (filter (\<lambda>q. \<not> isl (outcome L q)) requests)"
    by (simp add: filter_map comp_def scored_record)
  finally have 7: "mset (filter scored ?out)
      = mset (map (record_of L) (filter (\<lambda>q. \<not> isl (outcome L q)) requests))" .
  have 8: "?out = filter scored ?out @ filter errored ?out"
    using sorted_errors_last[of L requests] by (simp only: sc)
  show ?thesis
    apply (rule exI[of _ ?out])
    apply (intro conjI)
    apply (rule 1)
    apply (rule 2)
    apply (rule 3)
    apply (rule record_of_eq)
    apply (rule 5)
    apply (rule 6)
    apply (rule 7)
    apply (rule 8)
    apply (rule example_isolation)
    done
qed

text \<open>
  C8. On the record of a request the four fields of the item (\<open>resume_text\<close>,
  \<open>job_description\<close>, \<open>required_skills\<close>, \<open>fileName\<close>) hold the values taken from the
  request, whether the item was scored or errored: the merge overwrites none of them.
\<close>

theorem metadata_unchanged:
  "\<exists>out. score_candidates_batch L requests = Some out
      \<and> mset out = mset (map (record_of L) requests)
      \<and> take 4 (record_of L q) = make_item q
      \<and> map_of (record_of L q) ''resume_text'' = Some (dict_get q ''resume_text'' (PStr []))
      \<and> map_of (record_of L q) ''job_description'' = Some (dict_get q ''job_description'' (PStr []))
      \<and> map_of (record_of L q) ''required_skills'' = Some (dict_get q ''required_skills'' (PList []))
      \<and> map_of (record_of L q) ''fileName'' = Some (dict_get q ''fileName'' (PStr ''Unknown''))"
proof -
  let ?out = "sort_key (\<lambda>r. - key_num r) (map (record_of L) requests)"
  have 1: "score_candidates_batch L requests = Some ?out" by (rule batch_result)
  have 2: "mset ?out = mset (map (record_of L) requests)" by simp
  have 3: "take 4 (record_of L q) = make_item q"
    by (simp add: record_of_eq make_item_def)
  have 4: "map_of (record_of L q) ''resume_text'' = Some (dict_get q ''resume_text'' (PStr []))"
    "map_of (record_of L q) ''job_description'' = Some (dict_get q ''job_description'' (PStr []))"
    "map_of (record_of L q) ''required_skills'' = Some (dict_get q ''required_skills'' (PList []))"
    "map_of (record_of L q) ''fileName'' = Some (dict_get q ''fileName'' (PStr ''Unknown''))"
    by (simp_all add: record_of_eq make_item_def)
  from 1 2 3 4 show ?thesis by blast
qed

section \<open>The batch pipeline: completion order\<close>






end
